theory Spec2Isabelle
  imports Complex_Main
begin

section \<open>Python values, exceptions and containers\<close>

text \<open>
  The class \<^verbatim>\<open>Plot\<close> of \<^verbatim>\<open>qexpy/plotting.py\<close> is a mutable object whose methods
  update its attributes, print to the console and may raise. A method is modelled as a
  function from the object (and, where it is used, the module-level state) to an
  outcome together with the object as the method leaves it: an exception does not undo
  the assignments made before it, so the state is returned on both paths.

  The two ranges of a plot are Python lists that the methods change in place and
  that \<^verbatim>\<open>set_plot_range\<close> stores without copying: they are kept in a store of list
  objects, and the plot holds their addresses, so that the x range and the y range
  can be one and the same list.
\<close>

datatype py_error = IndexError | KeyError | ValueError | AttributeError | TypeError

datatype 'a outcome = Returns 'a | Raises py_error

text \<open>
  A Python float: a finite number, taken as the real number it denotes (rounding and
  the infinities are not modelled), or NaN. No comparison holds of NaN, and a sum or
  a difference with NaN is NaN.
\<close>

datatype pyfloat = Fin real | NaN

instantiation pyfloat :: "{ord, plus, minus}"
begin

definition less_eq_pyfloat :: "pyfloat \<Rightarrow> pyfloat \<Rightarrow> bool" where
  "less_eq_pyfloat a b = (case (a, b) of (Fin x, Fin y) \<Rightarrow> x \<le> y | other \<Rightarrow> False)"

definition less_pyfloat :: "pyfloat \<Rightarrow> pyfloat \<Rightarrow> bool" where
  "less_pyfloat a b = (case (a, b) of (Fin x, Fin y) \<Rightarrow> x < y | other \<Rightarrow> False)"

definition plus_pyfloat :: "pyfloat \<Rightarrow> pyfloat \<Rightarrow> pyfloat" where
  "plus_pyfloat a b = (case (a, b) of (Fin x, Fin y) \<Rightarrow> Fin (x + y) | other \<Rightarrow> NaN)"

definition minus_pyfloat :: "pyfloat \<Rightarrow> pyfloat \<Rightarrow> pyfloat" where
  "minus_pyfloat a b = (case (a, b) of (Fin x, Fin y) \<Rightarrow> Fin (x - y) | other \<Rightarrow> NaN)"

instance ..

end

text \<open>The largest and the smallest of two floats as numpy's \<^verbatim>\<open>max\<close> and \<^verbatim>\<open>min\<close> take
  them: NaN as soon as one is NaN.\<close>

definition np_max :: "pyfloat \<Rightarrow> pyfloat \<Rightarrow> pyfloat" where
  "np_max a b = (case (a, b) of (Fin x, Fin y) \<Rightarrow> Fin (max x y) | other \<Rightarrow> NaN)"

definition np_min :: "pyfloat \<Rightarrow> pyfloat \<Rightarrow> pyfloat" where
  "np_min a b = (case (a, b) of (Fin x, Fin y) \<Rightarrow> Fin (min x y) | other \<Rightarrow> NaN)"

text \<open>The address of a list object in the store.\<close>

type_synonym ref = nat

text \<open>\<^verbatim>\<open>xs[i]\<close> on a Python list: a negative index counts from the end, an index
  outside the list raises.\<close>

definition getitem :: "'a list \<Rightarrow> int \<Rightarrow> 'a outcome" where
  "getitem xs i =
     (if 0 \<le> i \<and> i < int (length xs) then Returns (xs ! nat i)
      else if i < 0 \<and> - int (length xs) \<le> i then Returns (xs ! nat (int (length xs) + i))
      else Raises IndexError)"

text \<open>\<^verbatim>\<open>xs[i] = v\<close> on a Python list.\<close>

definition setitem :: "'a list \<Rightarrow> int \<Rightarrow> 'a \<Rightarrow> 'a list outcome" where
  "setitem xs i v =
     (if 0 \<le> i \<and> i < int (length xs) then Returns (xs[nat i := v])
      else if i < 0 \<and> - int (length xs) \<le> i then Returns (xs[nat (int (length xs) + i) := v])
      else Raises IndexError)"

text \<open>\<^verbatim>\<open>d[k]\<close> on a Python dict.\<close>

definition dict_get :: "('k \<rightharpoonup> 'v) \<Rightarrow> 'k \<Rightarrow> 'v outcome" where
  "dict_get d k = (case d k of None \<Rightarrow> Raises KeyError | Some v \<Rightarrow> Returns v)"

type_synonym color = string

text \<open>The palette \<^verbatim>\<open>bokeh.palettes.Set1_9\<close> that the constructor takes from the plotting
  library (it is not part of the repository): the nine colors of ColorBrewer's
  \<^verbatim>\<open>Set1\<close>, in the library's order.\<close>

definition Set1_9 :: "color list" where
  "Set1_9 = [''#e41a1c'', ''#377eb8'', ''#4daf4a'', ''#984ea3'', ''#ff7f00'',
             ''#ffff33'', ''#a65628'', ''#f781bf'', ''#999999'']"

section \<open>Module-level state\<close>

text \<open>
  What the methods read and write outside the object: the flag
  \<^verbatim>\<open>qexpy.error.Measurement.minmax_n\<close>, the console that \<^verbatim>\<open>print\<close> writes to, whether
  the session runs in a notebook (\<^verbatim>\<open>qexpy.utils.in_notebook()\<close>), the flag
  \<^verbatim>\<open>qexpy.utils.bokeh_ouput_notebook_called\<close>.
\<close>

record world =
  minmax_n :: int
  console :: "string list"
  in_notebook :: bool
  bokeh_ouput_notebook_called :: bool

definition print :: "string \<Rightarrow> world \<Rightarrow> world" where
  "print msg w = w\<lparr>console := console w @ [msg]\<rparr>"


text \<open>\<^verbatim>\<open>str(n)\<close> for an integer, as \<^verbatim>\<open>"userf_{}".format(n)\<close> prints it.\<close>

fun digits :: "nat \<Rightarrow> string" where
  "digits n =
     (if n < 10 then [char_of (48 + n)]
      else digits (n div 10) @ [char_of (48 + n mod 10)])"

definition str_int :: "int \<Rightarrow> string" where
  "str_int i = (if i < 0 then CHR ''-'' # digits (nat (- i)) else digits (nat i))"

text \<open>\<^verbatim>\<open>numpy.linspace(a, b, n)\<close>: \<open>n\<close> evenly spaced points from \<open>a\<close> to \<open>b\<close>,
  all NaN when a bound is NaN.\<close>

definition linspace :: "pyfloat \<Rightarrow> pyfloat \<Rightarrow> nat \<Rightarrow> pyfloat list" where
  "linspace a b n =
     (case (a, b) of
        (Fin x, Fin y) \<Rightarrow>
          (if n = 1 then [Fin x]
           else map (\<lambda>i. Fin (x + real i * ((y - x) / real (n - 1)))) [0..<n])
      | other \<Rightarrow> replicate n NaN)"

section \<open>The collaborators' objects\<close>

text \<open>A \<^verbatim>\<open>qexpy.error.Measurement\<close>: a mean, a standard deviation and the text
  \<^verbatim>\<open>__str__\<close> gives.\<close>

record measurement =
  mean :: pyfloat
  std :: pyfloat
  str_repr :: string

text \<open>
  The object a plotted function returns is known to \<^verbatim>\<open>add_function\<close> only through
  the methods called on it: \<^verbatim>\<open>.max()\<close>, \<^verbatim>\<open>.min()\<close> and, for uncertain parameters,
  \<^verbatim>\<open>.get_means()\<close>, whose result is again asked for \<^verbatim>\<open>.max()\<close> and \<^verbatim>\<open>.min()\<close>. Each
  method returns or raises (\<^verbatim>\<open>AttributeError\<close> when the object has no such method).
\<close>

datatype array_obj =
  ArrayObj (arr_max: "pyfloat outcome") (arr_min: "pyfloat outcome")
    (get_means: "array_obj outcome")

text \<open>A numpy array of floats: \<^verbatim>\<open>max\<close> and \<^verbatim>\<open>min\<close> of an empty array raise
  \<^verbatim>\<open>ValueError\<close>, and there is no \<^verbatim>\<open>get_means\<close>.\<close>

definition ndarray :: "pyfloat list \<Rightarrow> array_obj" where
  "ndarray xs =
     (case xs of
        [] \<Rightarrow> ArrayObj (Raises ValueError) (Raises ValueError) (Raises AttributeError)
      | x # r \<Rightarrow>
          ArrayObj (Returns (fold np_max r x)) (Returns (fold np_min r x))
            (Raises AttributeError))"

text \<open>The arguments a function receives after the sample points: scalars, or
  measurements with uncertainty.\<close>

datatype param = Scalar pyfloat | Uncertain measurement

text \<open>A function to plot, \<^verbatim>\<open>function(xvals, *pars)\<close>. It runs in the module-level
  state (the arithmetic of measurements reads \<^verbatim>\<open>minmax_n\<close>) and may change it.\<close>

type_synonym user_function =
  "pyfloat list \<Rightarrow> param list \<Rightarrow> world \<Rightarrow> array_obj outcome \<times> world"

text \<open>The \<^verbatim>\<open>pars\<close> argument of \<^verbatim>\<open>add_function\<close>: \<^verbatim>\<open>None\<close>, a
  \<^verbatim>\<open>Measurement_Array\<close>, a list, a numpy array, or any other object.\<close>

datatype pars =
    ParsNone
  | ParsMeasurementArray "measurement list"
  | ParsList "pyfloat list"
  | ParsNdarray "pyfloat list"
  | ParsOther

text \<open>A fitted function of a dataset, \<^verbatim>\<open>fit_function[-1](x, *means)\<close>.\<close>

type_synonym fit_fn = "pyfloat \<Rightarrow> pyfloat list \<Rightarrow> pyfloat outcome"

text \<open>
  A \<^verbatim>\<open>qexpy.fitting.XYDataSet\<close>, by the attributes and methods the plot uses. The
  methods \<^verbatim>\<open>get_x_range(margin)\<close>, \<^verbatim>\<open>get_y_range(margin)\<close> and \<^verbatim>\<open>get_yres_range()\<close>
  belong to the fitting module: they are fields here, so that every result
  holds for whatever extents the dataset reports. Each call of them gives a new list,
  not one the dataset or the plot already holds. The plot holds datasets by value.
\<close>

record dataset =
  ds_name :: string
  ds_xname :: string
  ds_xunits :: string
  ds_yname :: string
  ds_yunits :: string
  xdata :: "pyfloat list"
  nfits :: int
  fit_function :: "fit_fn list"
  fit_function_name :: "string list"
  fit_pars :: "measurement list list"
  fit_npars :: "int list"
  get_x_range :: "pyfloat \<Rightarrow> pyfloat list"
  get_y_range :: "pyfloat \<Rightarrow> pyfloat list"
  get_yres_range :: "pyfloat list"

section \<open>Figures of the rendering library\<close>

text \<open>
  A bokeh figure is modelled by what was asked of the library: the arguments of
  \<^verbatim>\<open>bokeh.plotting.figure\<close>, the legend location, and the marks added, in order, by
  \<^verbatim>\<open>qexpy.plot_utils.plot_dataset\<close>, \<^verbatim>\<open>qexpy.plot_utils.plot_function\<close> and
  \<^verbatim>\<open>add_layout\<close>. The rendering calls read the objects they are given and change
  only the figure; a figure keeps the bounds its range lists had when it was made.
\<close>

datatype glyph =
    DatasetGlyph dataset bool color
  | FitGlyph fit_fn "pyfloat list" "measurement list" nat string color pyfloat
  | FunctionGlyph user_function "pyfloat list" pars nat string color pyfloat
  | LabelGlyph int int string

record figure =
  fig_tools :: string
  fig_width :: int
  fig_height :: int
  fig_y_axis_type :: string
  fig_y_range :: "pyfloat list"
  fig_x_axis_type :: "string option"
  fig_x_range :: "pyfloat list"
  fig_title :: "string option"
  fig_x_axis_label :: "string option"
  fig_y_axis_label :: "string option"
  fig_legend_location :: "string option"
  fig_glyphs :: "glyph list"

datatype layout = Figure figure | Gridplot "figure list list"

section \<open>The Plot object\<close>

text \<open>
  The attributes of a \<^verbatim>\<open>Plot\<close>. \<^verbatim>\<open>bkfigure\<close>, \<^verbatim>\<open>bkres\<close> and the three
  \<^verbatim>\<open>linear_fit_\<close> attributes do not exist until a method assigns them (\<open>None\<close>).
  \<^verbatim>\<open>x_range\<close> and \<^verbatim>\<open>y_range\<close> are the addresses of two list objects; \<open>lists\<close> is
  the store of the list objects, those of the plot and those of its callers, and
  \<open>lists_count\<close> the number of addresses in use. The store is kept with the plot: the
  functions that are plotted run on the module-level state and do not reach it.
\<close>

record plot =
  color_palette :: "color list"
  color_count :: int
  datasets :: "dataset list"
  datasets_colors :: "color list"
  xunits :: string
  xname :: string
  yunits :: string
  yname :: string
  errorband_sigma :: pyfloat
  show_residuals :: bool
  x_range_margin :: pyfloat
  y_range_margin :: pyfloat
  x_range :: ref
  y_range :: ref
  lists :: "ref \<Rightarrow> pyfloat list"
  lists_count :: nat
  dimensions :: "int list"
  user_functions_count :: int
  user_functions :: "user_function list"
  user_functions_pars :: "pars list"
  user_functions_names :: "string list"
  user_functions_colors :: "color list"
  axes :: "string \<rightharpoonup> string"
  legend_location :: string
  labels :: "string \<rightharpoonup> string option"
  plot_para :: "string \<rightharpoonup> string"
  bkfigure :: "layout option"
  bkres :: "figure option"
  linear_fit_line :: "glyph option"
  linear_fit_patches :: "glyph option"
  linear_fit_pars :: "measurement list option"

subsection \<open>The range lists\<close>

text \<open>The list \<^verbatim>\<open>self.x_range\<close> refers to, and the one \<^verbatim>\<open>self.y_range\<close> refers
  to.\<close>

definition x_list :: "plot \<Rightarrow> pyfloat list" where
  "x_list s = lists s (x_range s)"

definition y_list :: "plot \<Rightarrow> pyfloat list" where
  "y_list s = lists s (y_range s)"

text \<open>The list object at address \<open>a\<close> after an assignment to one of its items: every
  name that refers to the object sees the new list.\<close>

definition write_list :: "ref \<Rightarrow> pyfloat list \<Rightarrow> plot \<Rightarrow> plot" where
  "write_list a r s = s\<lparr>lists := (lists s)(a := r)\<rparr>"

text \<open>A new list object with the elements \<open>r\<close>, as a list display or a call that
  builds a list makes it: it takes the next address.\<close>

definition new_list :: "pyfloat list \<Rightarrow> plot \<Rightarrow> ref \<times> plot" where
  "new_list r s =
     (lists_count s, s\<lparr>lists := (lists s)(lists_count s := r), lists_count := lists_count s + 1\<rparr>)"

subsection \<open>Colors\<close>

text \<open>\<^verbatim>\<open>_get_color_from_palette\<close> (lines 96-99): the counter is incremented first, then
  the palette is indexed with the old count.\<close>

definition get_color_from_palette :: "plot \<Rightarrow> color outcome \<times> plot" where
  "get_color_from_palette s =
     (let s1 = s\<lparr>color_count := color_count s + 1\<rparr>
      in (getitem (color_palette s1) (color_count s1 - 1), s1))"

text \<open>\<open>n\<close> calls of \<^verbatim>\<open>_get_color_from_palette\<close> in a row, each outcome recorded, a
  raised one too.\<close>

fun allocate_colors :: "nat \<Rightarrow> plot \<Rightarrow> color outcome list \<times> plot" where
  "allocate_colors 0 s = ([], s)"
| "allocate_colors (Suc n) s =
     (case get_color_from_palette s of
        (c, s1) \<Rightarrow> (case allocate_colors n s1 of (cs, s2) \<Rightarrow> (c # cs, s2)))"


subsection \<open>Construction\<close>

text \<open>\<^verbatim>\<open>set_range_from_dataset\<close> (lines 194-197): the two lists the dataset
  returns are new objects.\<close>

definition set_range_from_dataset :: "dataset \<Rightarrow> plot \<Rightarrow> plot" where
  "set_range_from_dataset dataset s =
     (case new_list (get_x_range dataset (x_range_margin s)) s of
        (xr, s1) \<Rightarrow>
          (let s2 = s1\<lparr>x_range := xr\<rparr>
           in case new_list (get_y_range dataset (y_range_margin s2)) s2 of
                (yr, s3) \<Rightarrow> s3\<lparr>y_range := yr\<rparr>))"

text \<open>
  \<^verbatim>\<open>__init__\<close> (lines 32-94). \<open>XYDataSet\<close> is the constructor of the fitting module,
  applied to the raw arguments \<open>(x, y, xerr, yerr)\<close> and \<open>data_name\<close> when no
  dataset is given. The record holds every attribute the constructor assigns; none
  is read before the source assigns it. The first color comes from
  \<^verbatim>\<open>_get_color_from_palette\<close> (line 56) and the ranges, which refer to nothing until
  then, from \<^verbatim>\<open>set_range_from_dataset\<close> (line 72). \<^verbatim>\<open>self.datasets[-1]\<close> is the
  dataset just appended. The store of the new plot holds its two range lists.
\<close>

definition Plot_init ::
  "('raw \<Rightarrow> string option \<Rightarrow> dataset) \<Rightarrow> 'raw \<Rightarrow> string option \<Rightarrow> dataset option \<Rightarrow> plot outcome" where
  "Plot_init XYDataSet raw data_name dataset =
     (let d = (case dataset of Some given \<Rightarrow> given | None \<Rightarrow> XYDataSet raw data_name);
          s0 = \<lparr>color_palette = Set1_9, color_count = 0,
                datasets = [d], datasets_colors = [],
                xunits = ds_xunits d, xname = ds_xname d,
                yunits = ds_yunits d, yname = ds_yname d,
                errorband_sigma = Fin 1, show_residuals = False,
                x_range_margin = Fin (1 / 2), y_range_margin = Fin (1 / 2),
                x_range = 0, y_range = 0, lists = (\<lambda>a. []), lists_count = 0,
                dimensions = [600, 400],
                user_functions_count = 0, user_functions = [],
                user_functions_pars = [], user_functions_names = [],
                user_functions_colors = [],
                axes = [''xscale'' \<mapsto> ''linear'', ''yscale'' \<mapsto> ''linear''],
                legend_location = ''top_left'',
                labels = [''title'' \<mapsto> Some (ds_name d),
                          ''xtitle'' \<mapsto> Some (ds_xname d @ '' ['' @ ds_xunits d @ '']''),
                          ''ytitle'' \<mapsto> Some (ds_yname d @ '' ['' @ ds_yunits d @ '']''),
                          ''data'' \<mapsto> data_name],
                plot_para = [''filename'' \<mapsto> ''Plot''],
                bkfigure = None, bkres = None,
                linear_fit_line = None, linear_fit_patches = None, linear_fit_pars = None\<rparr>
      in case get_color_from_palette s0 of
           (Raises e, s1) \<Rightarrow> Raises e
         | (Returns c, s1) \<Rightarrow>
             Returns (set_range_from_dataset d (s1\<lparr>datasets_colors := datasets_colors s1 @ [c]\<rparr>)))"

subsection \<open>Adding to the plot\<close>

text \<open>\<^verbatim>\<open>add_residuals\<close> (lines 116-119).\<close>

definition add_residuals :: "plot \<Rightarrow> unit outcome \<times> plot" where
  "add_residuals s =
     (case getitem (datasets s) (- 1) of
        Raises e \<Rightarrow> (Raises e, s)
      | Returns d \<Rightarrow>
          if nfits d > 0 then (Returns (), s\<lparr>show_residuals := True\<rparr>) else (Returns (), s))"

text \<open>The statement \<^verbatim>\<open>if v < r[0]: r[0] = v\<close> on a range \<open>r\<close>, and
  \<^verbatim>\<open>if v > r[1]: r[1] = v\<close>.\<close>

definition lower_to :: "pyfloat list \<Rightarrow> pyfloat \<Rightarrow> pyfloat list outcome" where
  "lower_to r v =
     (case getitem r 0 of
        Raises e \<Rightarrow> Raises e
      | Returns lo \<Rightarrow> if v < lo then setitem r 0 v else Returns r)"

definition raise_to :: "pyfloat list \<Rightarrow> pyfloat \<Rightarrow> pyfloat list outcome" where
  "raise_to r v =
     (case getitem r 1 of
        Raises e \<Rightarrow> Raises e
      | Returns hi \<Rightarrow> if hi < v then setitem r 1 v else Returns r)"

text \<open>
  \<^verbatim>\<open>add_function\<close>, lines 131-144: the values of the function at the sample points,
  by the form of \<open>pars\<close>. \<open>None\<close> is the last branch: the message is printed and
  \<^verbatim>\<open>add_function\<close> returns. With a \<^verbatim>\<open>Measurement_Array\<close> the flag \<^verbatim>\<open>minmax_n\<close> is set
  to 1, the function is called, the means are taken, and the flag is set back.
\<close>

definition function_values ::
  "user_function \<Rightarrow> pars \<Rightarrow> pyfloat list \<Rightarrow> world \<Rightarrow> array_obj outcome option \<times> world" where
  "function_values function pars xvals w =
     (case pars of
        ParsNone \<Rightarrow> (case function xvals [] w of (r, w1) \<Rightarrow> (Some r, w1))
      | ParsMeasurementArray ms \<Rightarrow>
          (let recall = minmax_n w
           in case function xvals (map Uncertain ms) (w\<lparr>minmax_n := 1\<rparr>) of
                (Raises e, w1) \<Rightarrow> (Some (Raises e), w1)
              | (Returns fmes, w1) \<Rightarrow>
                  (case get_means fmes of
                     Raises e \<Rightarrow> (Some (Raises e), w1)
                   | Returns fvals \<Rightarrow> (Some (Returns fvals), w1\<lparr>minmax_n := recall\<rparr>)))
      | ParsList ps \<Rightarrow> (case function xvals (map Scalar ps) w of (r, w1) \<Rightarrow> (Some r, w1))
      | ParsNdarray ps \<Rightarrow> (case function xvals (map Scalar ps) w of (r, w1) \<Rightarrow> (Some r, w1))
      | ParsOther \<Rightarrow> (None, print ''Error: Not a recognized format for parameter'' w))"

text \<open>\<^verbatim>\<open>add_function\<close>, lines 146-163: the y range list is changed in place to
  reach the values, the function is recorded, a color is taken.\<close>

definition add_function_entry ::
  "user_function \<Rightarrow> pars \<Rightarrow> string option \<Rightarrow> color option \<Rightarrow> array_obj \<Rightarrow> plot
    \<Rightarrow> unit outcome \<times> plot" where
  "add_function_entry function pars name color fvals s =
     (case arr_max fvals of
        Raises e \<Rightarrow> (Raises e, s)
      | Returns mx \<Rightarrow>
     (case arr_min fvals of
        Raises e \<Rightarrow> (Raises e, s)
      | Returns mn \<Rightarrow>
     (let fmax = mx + y_range_margin s; fmin = mn - y_range_margin s
      in case raise_to (y_list s) fmax of
           Raises e \<Rightarrow> (Raises e, s)
         | Returns r1 \<Rightarrow>
        (let s1 = write_list (y_range s) r1 s
         in case lower_to (y_list s1) fmin of
              Raises e \<Rightarrow> (Raises e, s1)
            | Returns r2 \<Rightarrow>
           (let fname = (case name of
                           None \<Rightarrow> ''userf_'' @ str_int (user_functions_count s1)
                         | Some n \<Rightarrow> n);
                s2 = (write_list (y_range s1) r2 s1)
                       \<lparr>user_functions := user_functions s1 @ [function],
                        user_functions_pars := user_functions_pars s1 @ [pars],
                        user_functions_names := user_functions_names s1 @ [fname],
                        user_functions_count := user_functions_count s1 + 1\<rparr>
            in case color of
                 None \<Rightarrow>
                   (case get_color_from_palette s2 of
                      (Raises e, s3) \<Rightarrow> (Raises e, s3)
                    | (Returns c, s3) \<Rightarrow>
                        (Returns (),
                         s3\<lparr>user_functions_colors := user_functions_colors s3 @ [c]\<rparr>))
               | Some c \<Rightarrow>
                   (Returns (),
                    s2\<lparr>user_functions_colors := user_functions_colors s2 @ [c]\<rparr>))))))"

text \<open>\<^verbatim>\<open>add_function\<close> (lines 122-163).\<close>

definition add_function ::
  "user_function \<Rightarrow> pars \<Rightarrow> string option \<Rightarrow> color option \<Rightarrow> plot \<Rightarrow> world
    \<Rightarrow> unit outcome \<times> plot \<times> world" where
  "add_function function pars name color s w =
     (case getitem (x_list s) 0 of
        Raises e \<Rightarrow> (Raises e, s, w)
      | Returns lo \<Rightarrow>
     (case getitem (x_list s) 1 of
        Raises e \<Rightarrow> (Raises e, s, w)
      | Returns hi \<Rightarrow>
     (case function_values function pars (linspace lo hi 100) w of
        (None, w1) \<Rightarrow> (Returns (), s, w1)
      | (Some (Raises e), w1) \<Rightarrow> (Raises e, s, w1)
      | (Some (Returns fvals), w1) \<Rightarrow>
          (case add_function_entry function pars name color fvals s of
             (out, s1) \<Rightarrow> (out, s1, w1)))))"

text \<open>\<^verbatim>\<open>add_dataset\<close>, lines 180-187: the four comparisons of the bounds \<open>xr\<close> and
  \<open>yr\<close> the dataset reported with the two range lists, which are changed in place,
  the x range first.\<close>

definition widen_ranges :: "pyfloat list \<Rightarrow> pyfloat list \<Rightarrow> plot \<Rightarrow> unit outcome \<times> plot" where
  "widen_ranges xr yr s =
     (case getitem xr 0 of Raises e \<Rightarrow> (Raises e, s) | Returns x0 \<Rightarrow>
     (case lower_to (x_list s) x0 of Raises e \<Rightarrow> (Raises e, s) | Returns r1 \<Rightarrow>
     (let s1 = write_list (x_range s) r1 s
      in case getitem xr 1 of Raises e \<Rightarrow> (Raises e, s1) | Returns x1 \<Rightarrow>
     (case raise_to (x_list s1) x1 of Raises e \<Rightarrow> (Raises e, s1) | Returns r2 \<Rightarrow>
     (let s2 = write_list (x_range s1) r2 s1
      in case getitem yr 0 of Raises e \<Rightarrow> (Raises e, s2) | Returns y0 \<Rightarrow>
     (case lower_to (y_list s2) y0 of Raises e \<Rightarrow> (Raises e, s2) | Returns r3 \<Rightarrow>
     (let s3 = write_list (y_range s2) r3 s2
      in case getitem yr 1 of Raises e \<Rightarrow> (Raises e, s3) | Returns y1 \<Rightarrow>
     (case raise_to (y_list s3) y1 of Raises e \<Rightarrow> (Raises e, s3) | Returns r4 \<Rightarrow>
        (Returns (), write_list (y_range s3) r4 s3)))))))))"

text \<open>\<^verbatim>\<open>add_dataset\<close> (lines 165-187). The dataset is appended first, then its color;
  the name is given to the dataset just appended, the last of the list.\<close>

definition add_dataset ::
  "dataset \<Rightarrow> color option \<Rightarrow> string option \<Rightarrow> plot \<Rightarrow> unit outcome \<times> plot" where
  "add_dataset dataset color name s =
     (let s1 = s\<lparr>datasets := datasets s @ [dataset]\<rparr>
      in case (case color of None \<Rightarrow> get_color_from_palette s1 | Some c \<Rightarrow> (Returns c, s1)) of
           (Raises e, s2) \<Rightarrow> (Raises e, s2)
         | (Returns c, s2) \<Rightarrow>
        (let s3 = s2\<lparr>datasets_colors := datasets_colors s2 @ [c]\<rparr>;
             s4 = (case name of
                     None \<Rightarrow> s3
                   | Some n \<Rightarrow>
                       s3\<lparr>datasets := butlast (datasets s3) @ [dataset\<lparr>ds_name := n\<rparr>]\<rparr>)
         in widen_ranges (get_x_range dataset (x_range_margin s4))
              (get_y_range dataset (y_range_margin s4)) s4))"

subsection \<open>Changing parameters\<close>

text \<open>
  An argument of \<^verbatim>\<open>set_plot_range\<close>: \<^verbatim>\<open>None\<close>, an object whose type is one of
  \<^verbatim>\<open>qexpy.utils.array_types\<close> (given by its address in the store), or any other
  object. The tuple \<^verbatim>\<open>array_types\<close> belongs to the utilities module; which types it
  lists is left open, and the object is taken to be a list of floats.
\<close>

datatype range_arg = RangeNone | RangeArray ref | RangeOther

definition x_range_message :: string where
  "x_range_message =
     ''X range must be a list containing a minimun and maximum'' @ [char_of (10::nat)] @
     ''            value for the range of the plot.''"

definition y_range_message :: string where
  "y_range_message =
     ''Y range must be a list containing a minimun and maximum'' @ [char_of (10::nat)] @
     ''            value for the range of the plot.''"

text \<open>\<^verbatim>\<open>set_plot_range\<close> (lines 199-211). The test \<^verbatim>\<open>len(x_range) is 2\<close> holds
  exactly when the length is 2: CPython keeps a single object for each small integer.
  The method has no \<^verbatim>\<open>raise\<close> and calls nothing that raises on these arguments
  (\<^verbatim>\<open>len\<close> is reached only for an array type). The attribute is bound to the
  argument itself: no copy is made.\<close>

definition set_plot_range ::
  "range_arg \<Rightarrow> range_arg \<Rightarrow> plot \<Rightarrow> world \<Rightarrow> unit outcome \<times> plot \<times> world" where
  "set_plot_range x_range_arg y_range_arg s w =
     (let (s1, w1) =
            (case x_range_arg of
               RangeArray a \<Rightarrow>
                 if length (lists s a) = 2 then (s\<lparr>x_range := a\<rparr>, w)
                 else (s, print x_range_message w)
             | RangeOther \<Rightarrow> (s, print x_range_message w)
             | RangeNone \<Rightarrow> (s, w));
          (s2, w2) =
            (case y_range_arg of
               RangeArray a \<Rightarrow>
                 if length (lists s1 a) = 2 then (s1\<lparr>y_range := a\<rparr>, w1)
                 else (s1, print y_range_message w1)
             | RangeOther \<Rightarrow> (s1, print y_range_message w1)
             | RangeNone \<Rightarrow> (s1, w1))
      in (Returns (), s2, w2))"

text \<open>\<^verbatim>\<open>set_labels\<close> (lines 214-229). The last assignment writes the key
  \<^verbatim>\<open>'Data'\<close>.\<close>

definition set_labels ::
  "string option \<Rightarrow> string option \<Rightarrow> string option \<Rightarrow> string option \<Rightarrow> plot
    \<Rightarrow> unit outcome \<times> plot" where
  "set_labels title xtitle ytitle data_name s =
     (let s1 = (case title of None \<Rightarrow> s
                | Some t \<Rightarrow> s\<lparr>labels := (labels s)(''title'' \<mapsto> Some t)\<rparr>);
          s2 = (case xtitle of None \<Rightarrow> s1
                | Some t \<Rightarrow> s1\<lparr>labels := (labels s1)(''xtitle'' \<mapsto> Some t)\<rparr>);
          s3 = (case ytitle of None \<Rightarrow> s2
                | Some t \<Rightarrow> s2\<lparr>labels := (labels s2)(''ytitle'' \<mapsto> Some t)\<rparr>);
          s4 = (case data_name of None \<Rightarrow> s3
                | Some t \<Rightarrow> s3\<lparr>labels := (labels s3)(''Data'' \<mapsto> Some t)\<rparr>)
      in (Returns (), s4))"


subsection \<open>Rendering\<close>

text \<open>\<^verbatim>\<open>s.split(c)\<close> for a one-character separator: the result is never empty.\<close>

fun split_on :: "char \<Rightarrow> string \<Rightarrow> string list" where
  "split_on c [] = [[]]"
| "split_on c (x # xs) =
     (if x = c then [] # split_on c xs
      else (case split_on c xs of
              [] \<Rightarrow> [[x]]
            | piece # pieces \<Rightarrow> (x # piece) # pieces))"

definition add_glyph :: "glyph \<Rightarrow> figure \<Rightarrow> figure" where
  "add_glyph g f = f\<lparr>fig_glyphs := fig_glyphs f @ [g]\<rparr>"

text \<open>\<^verbatim>\<open>initialize_bokeh_figure\<close> (lines 343-366). The keyword arguments are evaluated
  in the order they are written; the residual figure takes its x range from the
  figure held in \<^verbatim>\<open>bkfigure\<close>.\<close>

definition initialize_bokeh_figure :: "bool \<Rightarrow> plot \<Rightarrow> figure outcome" where
  "initialize_bokeh_figure residuals s =
     (if \<not> residuals then
        (case getitem (dimensions s) 0 of Raises e \<Rightarrow> Raises e | Returns width \<Rightarrow>
        (case getitem (dimensions s) 1 of Raises e \<Rightarrow> Raises e | Returns height \<Rightarrow>
        (case dict_get (axes s) ''yscale'' of Raises e \<Rightarrow> Raises e | Returns yscale \<Rightarrow>
        (case dict_get (axes s) ''xscale'' of Raises e \<Rightarrow> Raises e | Returns xscale \<Rightarrow>
        (case dict_get (labels s) ''title'' of Raises e \<Rightarrow> Raises e | Returns title \<Rightarrow>
        (case dict_get (labels s) ''xtitle'' of Raises e \<Rightarrow> Raises e | Returns xtitle \<Rightarrow>
        (case dict_get (labels s) ''ytitle'' of Raises e \<Rightarrow> Raises e | Returns ytitle \<Rightarrow>
           Returns \<lparr>fig_tools = ''save, pan, box_zoom, wheel_zoom, reset'',
                    fig_width = width, fig_height = height,
                    fig_y_axis_type = yscale, fig_y_range = y_list s,
                    fig_x_axis_type = Some xscale, fig_x_range = x_list s,
                    fig_title = title, fig_x_axis_label = xtitle,
                    fig_y_axis_label = ytitle,
                    fig_legend_location = None, fig_glyphs = []\<rparr>)))))))
      else
        (case getitem (dimensions s) 0 of Raises e \<Rightarrow> Raises e | Returns width \<Rightarrow>
        (case getitem (dimensions s) 1 of Raises e \<Rightarrow> Raises e | Returns height \<Rightarrow>
        (case getitem (datasets s) (- 1) of Raises e \<Rightarrow> Raises e | Returns d \<Rightarrow>
        (case bkfigure s of
           None \<Rightarrow> Raises AttributeError
         | Some (Gridplot rows) \<Rightarrow> Raises AttributeError
         | Some (Figure main) \<Rightarrow>
        (case dict_get (labels s) ''xtitle'' of Raises e \<Rightarrow> Raises e | Returns xtitle \<Rightarrow>
           Returns \<lparr>fig_tools = ''save, pan, box_zoom, wheel_zoom, reset'',
                    fig_width = width, fig_height = height div 3,
                    fig_y_axis_type = ''linear'', fig_y_range = get_yres_range d,
                    fig_x_axis_type = None, fig_x_range = fig_x_range main,
                    fig_title = None, fig_x_axis_label = xtitle,
                    fig_y_axis_label = Some ''Residuals'',
                    fig_legend_location = None, fig_glyphs = []\<rparr>))))))"

text \<open>\<^verbatim>\<open>populate_bokeh_figure\<close>, lines 302-316: the labels of the fit parameters, for
  \<open>i\<close> in \<^verbatim>\<open>range(dataset.fit_npars[-1])\<close>.\<close>

fun fit_parameter_labels :: "dataset \<Rightarrow> nat list \<Rightarrow> figure \<Rightarrow> unit outcome \<times> figure" where
  "fit_parameter_labels d [] f = (Returns (), f)"
| "fit_parameter_labels d (i # rest) f =
     (case getitem (fit_pars d) (- 1) of Raises e \<Rightarrow> (Raises e, f) | Returns ps \<Rightarrow>
     (case getitem ps (int i) of Raises e \<Rightarrow> (Raises e, f) | Returns m \<Rightarrow>
     (let short_name = split_on (CHR ''_'') (str_repr m);
          label_text = hd short_name @ ''_'' @ last short_name
      in fit_parameter_labels d rest
           (add_glyph (LabelGlyph 590 (320 + 20 * int i) label_text) f))))"

text \<open>\<^verbatim>\<open>populate_bokeh_figure\<close>, lines 290-321: one pass of the loop over the datasets,
  on the main figure \<open>f\<close> and the residual figure \<open>r\<close>.\<close>

definition plot_one_dataset ::
  "plot \<Rightarrow> int \<Rightarrow> dataset \<Rightarrow> figure \<Rightarrow> figure option
    \<Rightarrow> unit outcome \<times> figure \<times> figure option" where
  "plot_one_dataset s count d f r =
     (case getitem (datasets_colors s) count of Raises e \<Rightarrow> (Raises e, f, r) | Returns color \<Rightarrow>
     (let f1 = add_glyph (DatasetGlyph d False color) f
      in if nfits d > 0 then
           (case getitem (fit_function d) (- 1) of Raises e \<Rightarrow> (Raises e, f1, r) | Returns fn \<Rightarrow>
           (case getitem (fit_pars d) (- 1) of Raises e \<Rightarrow> (Raises e, f1, r) | Returns ps \<Rightarrow>
           (case getitem (fit_function_name d) (- 1) of Raises e \<Rightarrow> (Raises e, f1, r) | Returns fname \<Rightarrow>
           (let f2 = add_glyph (FitGlyph fn (xdata d) ps 100 fname color (errorband_sigma s)) f1
            in case (if count < 1 then
                       (case getitem (fit_npars d) (- 1) of
                          Raises e \<Rightarrow> (Raises e, f2)
                        | Returns n \<Rightarrow> fit_parameter_labels d [0..<nat n] f2)
                     else (Returns (), f2)) of
                 (Raises e, f3) \<Rightarrow> (Raises e, f3, r)
               | (Returns u, f3) \<Rightarrow>
                   if show_residuals s then
                     (case r of
                        None \<Rightarrow> (Raises AttributeError, f3, r)
                      | Some res \<Rightarrow>
                          (Returns (), f3, Some (add_glyph (DatasetGlyph d True color) res)))
                   else (Returns (), f3, r)))))
         else (Returns (), f1, r)))"

fun plot_datasets ::
  "plot \<Rightarrow> dataset list \<Rightarrow> int \<Rightarrow> figure \<Rightarrow> figure option
    \<Rightarrow> unit outcome \<times> figure \<times> figure option" where
  "plot_datasets s [] count f r = (Returns (), f, r)"
| "plot_datasets s (d # ds) count f r =
     (case plot_one_dataset s count d f r of
        (Raises e, f1, r1) \<Rightarrow> (Raises e, f1, r1)
      | (Returns u, f1, r1) \<Rightarrow> plot_datasets s ds (count + 1) f1 r1)"

text \<open>\<^verbatim>\<open>populate_bokeh_figure\<close>, lines 327-333: the loop over the user functions,
  zipped with their parameters and names.\<close>

fun plot_user_functions ::
  "plot \<Rightarrow> (user_function \<times> pars \<times> string) list \<Rightarrow> int \<Rightarrow> pyfloat list \<Rightarrow> figure
    \<Rightarrow> unit outcome \<times> figure" where
  "plot_user_functions s [] count xvals f = (Returns (), f)"
| "plot_user_functions s ((func, ps, fname) # rest) count xvals f =
     (case getitem (user_functions_colors s) count of
        Raises e \<Rightarrow> (Raises e, f)
      | Returns color \<Rightarrow>
          plot_user_functions s rest (count + 1) xvals
            (add_glyph (FunctionGlyph func xvals ps 100 fname color (errorband_sigma s)) f))"

text \<open>\<^verbatim>\<open>populate_bokeh_figure\<close> (lines 275-341). It assigns \<^verbatim>\<open>bkfigure\<close> and
  \<^verbatim>\<open>bkres\<close> and returns the figure, or the grid of the two figures.\<close>

definition populate_bokeh_figure :: "plot \<Rightarrow> layout outcome \<times> plot" where
  "populate_bokeh_figure s =
     (case initialize_bokeh_figure False s of
        Raises e \<Rightarrow> (Raises e, s)
      | Returns f0 \<Rightarrow>
     (let s1 = s\<lparr>bkfigure := Some (Figure f0)\<rparr>
      in case (if show_residuals s1 then
                 (case initialize_bokeh_figure True s1 of
                    Raises e \<Rightarrow> Raises e
                  | Returns r0 \<Rightarrow> Returns (Some r0))
               else Returns (bkres s1)) of
           Raises e \<Rightarrow> (Raises e, s1)
         | Returns r0 \<Rightarrow>
        (case plot_datasets s1 (datasets s1) 0 f0 r0 of
           (Raises e, f1, r1) \<Rightarrow> (Raises e, s1\<lparr>bkfigure := Some (Figure f1), bkres := r1\<rparr>)
         | (Returns u, f1, r1) \<Rightarrow>
        (let s2 = s1\<lparr>bkfigure := Some (Figure f1), bkres := r1\<rparr>
         in case getitem (x_list s2) 0 of Raises e \<Rightarrow> (Raises e, s2) | Returns lo \<Rightarrow>
           (case getitem (x_list s2) 1 of Raises e \<Rightarrow> (Raises e, s2) | Returns hi \<Rightarrow>
           (case plot_user_functions s2
                   (zip (user_functions s2)
                        (zip (user_functions_pars s2) (user_functions_names s2)))
                   0 [lo + x_range_margin s2, hi - x_range_margin s2] f1 of
              (Raises e, f2) \<Rightarrow> (Raises e, s2\<lparr>bkfigure := Some (Figure f2)\<rparr>)
            | (Returns u, f2) \<Rightarrow>
           (let f3 = f2\<lparr>fig_legend_location := Some (legend_location s2)\<rparr>;
                s3 = s2\<lparr>bkfigure := Some (Figure f3)\<rparr>
            in if show_residuals s3 then
                 (case bkres s3 of
                    None \<Rightarrow> (Raises AttributeError, s3)
                  | Some res \<Rightarrow>
                      (Returns (Gridplot [[f3], [res]]),
                       s3\<lparr>bkfigure := Some (Gridplot [[f3], [res]])\<rparr>))
               else (Returns (Figure f3), s3))))))))"




subsection \<open>The linear fit\<close>




subsection \<open>Sequences of calls\<close>

text \<open>A call of \<^verbatim>\<open>add_dataset(dataset, color, name)\<close> or of
  \<^verbatim>\<open>add_function(function, pars, name, color)\<close>.\<close>

datatype call =
    AddDataset dataset "color option" "string option"
  | AddFunction user_function pars "string option" "color option"

fun perform :: "call \<Rightarrow> plot \<Rightarrow> world \<Rightarrow> unit outcome \<times> plot \<times> world" where
  "perform (AddDataset d color name) s w =
     (case add_dataset d color name s of (out, s1) \<Rightarrow> (out, s1, w))"
| "perform (AddFunction function ps name color) s w = add_function function ps name color s w"

text \<open>The calls of a list made one after the other on the same plot. A call that
  raises leaves the plot as it was at the raise, and the next call goes on from
  there.\<close>

fun perform_all :: "call list \<Rightarrow> plot \<Rightarrow> world \<Rightarrow> unit outcome list \<times> plot \<times> world" where
  "perform_all [] s w = ([], s, w)"
| "perform_all (c # cs) s w =
     (case perform c s w of
        (out, s1, w1) \<Rightarrow>
          (case perform_all cs s1 w1 of (outs, s2, w2) \<Rightarrow> (out # outs, s2, w2)))"

text \<open>A float that is a number, not NaN.\<close>

definition number :: "pyfloat \<Rightarrow> bool" where
  "number a = (case a of Fin x \<Rightarrow> True | NaN \<Rightarrow> False)"

text \<open>
  What a call that returned asked the ranges to hold. For a dataset: the extents it
  reported for the margins of the plot. For a function: the largest and the smallest
  of its values at the sample points over the x range of that moment, widened by the
  y margin. \<open>s\<close> and \<open>w\<close> are the plot and the module state before the call,
  \<open>final\<close> the plot whose ranges are asked. A range list covers \<open>lo\<close> and \<open>hi\<close>
  when it has its two bounds, the first at most \<open>lo\<close> and the second at least
  \<open>hi\<close>, as floats compare.
\<close>

definition covers :: "pyfloat list \<Rightarrow> pyfloat \<Rightarrow> pyfloat \<Rightarrow> bool" where
  "covers r lo hi = (2 \<le> length r \<and> r ! 0 \<le> lo \<and> hi \<le> r ! 1)"

fun enclosed :: "call \<Rightarrow> plot \<Rightarrow> world \<Rightarrow> plot \<Rightarrow> bool" where
  "enclosed (AddDataset d color name) s w final =
     (covers (x_list final) (get_x_range d (x_range_margin s) ! 0)
                            (get_x_range d (x_range_margin s) ! 1) \<and>
      covers (y_list final) (get_y_range d (y_range_margin s) ! 0)
                            (get_y_range d (y_range_margin s) ! 1))"
| "enclosed (AddFunction function ps name color) s w final =
     (case function_values function ps (linspace (x_list s ! 0) (x_list s ! 1) 100) w of
        (Some (Returns fvals), w1) \<Rightarrow>
          (case (arr_min fvals, arr_max fvals) of
             (Returns mn, Returns mx) \<Rightarrow>
               covers (y_list final) (mn - y_range_margin s) (mx + y_range_margin s)
           | other \<Rightarrow> False)
      | nothing \<Rightarrow> True)"

text \<open>What the call asks the ranges to hold is made of numbers: the four bounds the
  dataset reports, or the two padded extremes of the function.\<close>

fun asks_numbers :: "call \<Rightarrow> plot \<Rightarrow> world \<Rightarrow> bool" where
  "asks_numbers (AddDataset d color name) s w =
     (number (get_x_range d (x_range_margin s) ! 0) \<and>
      number (get_x_range d (x_range_margin s) ! 1) \<and>
      number (get_y_range d (y_range_margin s) ! 0) \<and>
      number (get_y_range d (y_range_margin s) ! 1))"
| "asks_numbers (AddFunction function ps name color) s w =
     (case function_values function ps (linspace (x_list s ! 0) (x_list s ! 1) 100) w of
        (Some (Returns fvals), w1) \<Rightarrow>
          (case (arr_min fvals, arr_max fvals) of
             (Returns mn, Returns mx) \<Rightarrow>
               number (mn - y_range_margin s) \<and> number (mx + y_range_margin s)
           | other \<Rightarrow> True)
      | nothing \<Rightarrow> True)"

text \<open>Every call of the list that returned and asked for numbers is enclosed by the
  ranges of \<open>final\<close>.\<close>

fun all_enclosed :: "call list \<Rightarrow> plot \<Rightarrow> world \<Rightarrow> plot \<Rightarrow> bool" where
  "all_enclosed [] s w final = True"
| "all_enclosed (c # cs) s w final =
     (case perform c s w of
        (out, s1, w1) \<Rightarrow>
          (out = Returns () \<and> asks_numbers c s w \<longrightarrow> enclosed c s w final) \<and>
          all_enclosed cs s1 w1 final)"

text \<open>The two bounds of a range list are numbers.\<close>

definition numeric_bounds :: "pyfloat list \<Rightarrow> bool" where
  "numeric_bounds r = (number (r ! 0) \<and> number (r ! 1))"

section \<open>Example objects\<close>

text \<open>A dataset with \<open>x\<close> from 0 to 10 and \<open>y\<close> from 0 to 5, not fitted, and the
  plot the constructor makes of it with the data name \<^verbatim>\<open>run 1\<close>.\<close>

definition example_dataset :: dataset where
  "example_dataset =
     \<lparr>ds_name = ''dataset0'', ds_xname = ''x'', ds_xunits = ''m'',
      ds_yname = ''y'', ds_yunits = ''s'', xdata = [Fin 0, Fin 10], nfits = 0,
      fit_function = [], fit_function_name = [], fit_pars = [], fit_npars = [],
      get_x_range = (\<lambda>m. [Fin 0 - m, Fin 10 + m]),
      get_y_range = (\<lambda>m. [Fin 0 - m, Fin 5 + m]),
      get_yres_range = [Fin (- 1), Fin 1]\<rparr>"

definition example_plot :: plot where
  "example_plot =
     \<lparr>color_palette = Set1_9, color_count = 1,
      datasets = [example_dataset], datasets_colors = [''#e41a1c''],
      xunits = ''m'', xname = ''x'', yunits = ''s'', yname = ''y'',
      errorband_sigma = Fin 1, show_residuals = False,
      x_range_margin = Fin (1 / 2), y_range_margin = Fin (1 / 2),
      x_range = 0, y_range = 1,
      lists = (\<lambda>a. [])(0 := [Fin (- (1 / 2)), Fin (21 / 2)],
                          1 := [Fin (- (1 / 2)), Fin (11 / 2)]),
      lists_count = 2,
      dimensions = [600, 400],
      user_functions_count = 0, user_functions = [],
      user_functions_pars = [], user_functions_names = [],
      user_functions_colors = [],
      axes = [''xscale'' \<mapsto> ''linear'', ''yscale'' \<mapsto> ''linear''],
      legend_location = ''top_left'',
      labels = [''title'' \<mapsto> Some ''dataset0'',
                ''xtitle'' \<mapsto> Some ''x [m]'',
                ''ytitle'' \<mapsto> Some ''y [s]'',
                ''data'' \<mapsto> Some ''run 1''],
      plot_para = [''filename'' \<mapsto> ''Plot''],
      bkfigure = None, bkres = None,
      linear_fit_line = None, linear_fit_patches = None, linear_fit_pars = None\<rparr>"

definition example_world :: world where
  "example_world =
     \<lparr>minmax_n = 100, console = [], in_notebook = True,
      bokeh_ouput_notebook_called = False\<rparr>"

text \<open>A function that returns a numpy array of floats whatever its arguments, and one
  that returns an array of measurements: its \<^verbatim>\<open>get_means()\<close> is a numpy array of
  floats, and it is not asked here for its own largest and smallest element.\<close>

definition plain_function :: user_function where
  "plain_function xvals ps w = (Returns (ndarray [Fin 1, Fin 2]), w)"

definition measured_function :: user_function where
  "measured_function xvals ps w =
     (Returns (ArrayObj (Raises TypeError) (Raises TypeError)
                (Returns (ndarray [Fin 1, Fin 2]))), w)"

definition example_measurements :: "measurement list" where
  "example_measurements =
     [\<lparr>mean = Fin 1, std = Fin (1 / 10), str_repr = ''linear_intercept''\<rparr>,
      \<lparr>mean = Fin 2, std = Fin (1 / 10), str_repr = ''linear_slope''\<rparr>]"

text \<open>A fitting module for the examples: \<^verbatim>\<open>clear_fits()\<close> empties the record of
  fits, \<^verbatim>\<open>fit("linear")\<close> records the line \<open>1 + 2 x\<close>.\<close>

definition example_line :: fit_fn where
  "example_line x ps =
     (case (x, ps) of
        (Fin t, Fin a # Fin b # rest) \<Rightarrow> Returns (Fin (a + b * t))
      | other \<Rightarrow> Raises TypeError)"



definition fitted_dataset :: dataset where
  "fitted_dataset =
     example_dataset\<lparr>nfits := 1, fit_function := [example_line],
                     fit_function_name := [''linear''],
                     fit_pars := [example_measurements], fit_npars := [2]\<rparr>"

text \<open>Two calls of \<^verbatim>\<open>add_function\<close> in a row on the example plot, with no
  parameters, no name and no color.\<close>

definition first_call :: "unit outcome \<times> plot \<times> world" where
  "first_call = add_function plain_function ParsNone None None example_plot example_world"

definition second_call :: "unit outcome \<times> plot \<times> world" where
  "second_call =
     add_function plain_function ParsNone None None (fst (snd first_call)) (snd (snd first_call))"

text \<open>The example plot after its caller has made a list of three elements and a list
  of two: they are at the addresses 2 and 3.\<close>

definition range_lists_plot :: plot where
  "range_lists_plot =
     snd (new_list [Fin 0, Fin 20] (snd (new_list [Fin 0, Fin 1, Fin 2] example_plot)))"



text \<open>The example plot given the list \<^verbatim>\<open>[nan, 10]\<close> as its x range.\<close>

definition nan_plot :: plot where
  "nan_plot =
     (case new_list [NaN, Fin 10] example_plot of
        (r, s) \<Rightarrow> fst (snd (set_plot_range (RangeArray r) RangeNone s example_world)))"



text \<open>A second dataset, with \<open>x\<close> from -2 to 2, a function whose values go from -3
  to 7, and the two calls that add them.\<close>

definition second_dataset :: dataset where
  "second_dataset =
     example_dataset\<lparr>ds_name := ''dataset1'',
                     get_x_range := (\<lambda>m. [Fin (- 2) - m, Fin 2 + m]),
                     get_y_range := (\<lambda>m. [Fin 0 - m, Fin 1 + m])\<rparr>"

definition tall_function :: user_function where
  "tall_function xvals ps w = (Returns (ndarray [Fin (- 3), Fin 7]), w)"

definition example_calls :: "call list" where
  "example_calls =
     [AddDataset second_dataset None None, AddFunction tall_function ParsNone None None]"

text \<open>Nine calls of \<^verbatim>\<open>add_dataset\<close> with no color on the example plot: eight with the
  example dataset again, then one with a dataset whose \<open>x\<close> goes from -100 to 100.\<close>

definition wide_dataset :: dataset where
  "wide_dataset =
     example_dataset\<lparr>ds_name := ''dataset9'',
                     get_x_range := (\<lambda>m. [Fin (- 100) - m, Fin 100 + m])\<rparr>"

definition nine_calls :: "call list" where
  "nine_calls =
     replicate 8 (AddDataset example_dataset None None) @ [AddDataset wide_dataset None None]"

definition after_nine_calls :: "unit outcome list \<times> plot \<times> world" where
  "after_nine_calls = perform_all nine_calls example_plot example_world"

text \<open>A plot with a fitted dataset, residuals asked for and one user function, and
  what \<^verbatim>\<open>populate_bokeh_figure\<close> makes of it.\<close>

definition populated_plot :: plot where
  "populated_plot =
     example_plot\<lparr>datasets := [fitted_dataset], show_residuals := True,
                  color_count := 2, user_functions_count := 1,
                  user_functions := [plain_function], user_functions_pars := [ParsNone],
                  user_functions_names := [''userf_0''],
                  user_functions_colors := [''#377eb8'']\<rparr>"

definition rendered :: "layout outcome \<times> plot" where
  "rendered = populate_bokeh_figure populated_plot"

section \<open>Predicates of the statements\<close>

text \<open>An argument of \<^verbatim>\<open>set_plot_range\<close> that is an array of two elements, in the
  store of the plot \<open>s\<close>.\<close>

definition two_elements :: "plot \<Rightarrow> range_arg \<Rightarrow> bool" where
  "two_elements s a = (case a of RangeArray r \<Rightarrow> length (lists s r) = 2 | other \<Rightarrow> False)"

text \<open>The range \<open>r'\<close> has the length of \<open>r\<close>, and each of its two bounds is the
  bound of \<open>r\<close> or lies further out.\<close>

definition grows :: "pyfloat list \<Rightarrow> pyfloat list \<Rightarrow> bool" where
  "grows r r' =
     (length r' = length r \<and> (r' ! 0 = r ! 0 \<or> r' ! 0 < r ! 0) \<and>
      (r' ! 1 = r ! 1 \<or> r ! 1 < r' ! 1))"

text \<open>The plot \<open>s'\<close> has the range lists and the margins of \<open>s\<close>, and no list of
  the store has shrunk.\<close>

definition widened :: "plot \<Rightarrow> plot \<Rightarrow> bool" where
  "widened s s' =
     (x_range s' = x_range s \<and> y_range s' = y_range s \<and>
      x_range_margin s' = x_range_margin s \<and> y_range_margin s' = y_range_margin s \<and>
      (\<forall>a. grows (lists s a) (lists s' a)))"

section \<open>Properties\<close>

subsection \<open>Basic facts\<close>

lemma pyfloat_order [simp]:
  "Fin x \<le> Fin y \<longleftrightarrow> x \<le> y"
  "Fin x < Fin y \<longleftrightarrow> x < y"
  "\<not> NaN \<le> a" "\<not> a \<le> NaN" "\<not> NaN < a" "\<not> a < NaN"
  by (simp_all add: less_eq_pyfloat_def less_pyfloat_def split: pyfloat.splits)

lemma pyfloat_arith [simp]:
  "Fin x + Fin y = Fin (x + y)"
  "Fin x - Fin y = Fin (x - y)"
  "NaN + a = NaN" "a + NaN = NaN" "NaN - a = NaN" "a - NaN = NaN"
  by (simp_all add: plus_pyfloat_def minus_pyfloat_def split: pyfloat.splits)

lemma number_simps [simp]: "number (Fin x)" "\<not> number NaN"
  by (simp_all add: number_def)

lemma less_number: "a < b \<Longrightarrow> number a \<and> number b"
  by (cases a; cases b) simp_all

lemma less_eq_number: "a \<le> b \<Longrightarrow> number a \<and> number b"
  by (cases a; cases b) simp_all

lemma pyfloat_less_le_trans: "a < b \<Longrightarrow> b \<le> c \<Longrightarrow> a \<le> (c::pyfloat)"
  by (cases a; cases b; cases c) simp_all

lemma pyfloat_le_less_trans: "a \<le> b \<Longrightarrow> b < c \<Longrightarrow> a \<le> (c::pyfloat)"
  by (cases a; cases b; cases c) simp_all

lemma pyfloat_less_trans: "a < b \<Longrightarrow> b < c \<Longrightarrow> a < (c::pyfloat)"
  by (cases a; cases b; cases c) simp_all

lemma pyfloat_not_less: "number a \<Longrightarrow> number b \<Longrightarrow> \<not> a < b \<Longrightarrow> b \<le> (a::pyfloat)"
  by (cases a; cases b) simp_all

lemma pyfloat_le_refl: "number a \<Longrightarrow> a \<le> a"
  by (cases a) simp_all

lemma x_list_update [simp]:
  "x_list (s\<lparr>datasets := ds\<rparr>) = x_list s"
  "x_list (s\<lparr>datasets_colors := cs\<rparr>) = x_list s"
  "x_list (s\<lparr>color_count := k\<rparr>) = x_list s"
  "x_list (s\<lparr>bkfigure := b\<rparr>) = x_list s"
  "x_list (s\<lparr>bkres := r\<rparr>) = x_list s"
  "x_list (s\<lparr>y_range := a\<rparr>) = x_list s"
  by (simp_all add: x_list_def)

lemma y_list_update [simp]:
  "y_list (s\<lparr>datasets := ds\<rparr>) = y_list s"
  "y_list (s\<lparr>datasets_colors := cs\<rparr>) = y_list s"
  "y_list (s\<lparr>color_count := k\<rparr>) = y_list s"
  "y_list (s\<lparr>bkfigure := b\<rparr>) = y_list s"
  "y_list (s\<lparr>bkres := r\<rparr>) = y_list s"
  "y_list (s\<lparr>x_range := a\<rparr>) = y_list s"
  by (simp_all add: y_list_def)

lemma Plot_init_example:
  "Plot_init (\<lambda>raw n. example_dataset) () (Some ''run 1'') None = Returns example_plot"
  by (simp add: Plot_init_def example_plot_def example_dataset_def get_color_from_palette_def
      getitem_def Set1_9_def set_range_from_dataset_def new_list_def)

lemma getitem_nat:
  "getitem xs (int i) = (if i < length xs then Returns (xs ! i) else Raises IndexError)"
  by (simp add: getitem_def)

lemma getitem_last: "xs \<noteq> [] \<Longrightarrow> getitem xs (- 1) = Returns (last xs)"
  by (cases xs rule: rev_cases) (auto simp: getitem_def nth_append)

lemma getitem_0: "getitem xs 0 = (if xs = [] then Raises IndexError else Returns (xs ! 0))"
  by (simp add: getitem_def)

lemma getitem_1:
  "getitem xs 1 = (if 2 \<le> length xs then Returns (xs ! 1) else Raises IndexError)"
  by (auto simp: getitem_def)

lemma split_on_nonempty: "split_on c xs \<noteq> []"
  by (induction xs) (auto split: list.splits)

lemma Plot_init_ranges:
  assumes "Plot_init XYDataSet raw data_name dataset = Returns s"
  shows "x_list s = get_x_range (last (datasets s)) (Fin (1 / 2)) \<and>
         y_list s = get_y_range (last (datasets s)) (Fin (1 / 2)) \<and>
         x_range s \<noteq> y_range s \<and>
         length (datasets s) = 1 \<and> \<not> show_residuals s"
  using assms unfolding Plot_init_def Let_def get_color_from_palette_def set_range_from_dataset_def
  by (clarsimp simp: getitem_def Set1_9_def new_list_def x_list_def y_list_def)

subsection \<open>The palette cursor\<close>

lemma allocate_colors_gen:
  "0 \<le> color_count s \<Longrightarrow>
   length (fst (allocate_colors n s)) = n \<and>
   color_count (snd (allocate_colors n s)) = color_count s + int n \<and>
   color_palette (snd (allocate_colors n s)) = color_palette s \<and>
   (\<forall>i<n. fst (allocate_colors n s) ! i = getitem (color_palette s) (color_count s + int i))"
proof (induction n arbitrary: s)
  case 0
  then show ?case by simp
next
  case (Suc n)
  let ?s1 = "snd (get_color_from_palette s)"
  have c1: "color_count ?s1 = color_count s + 1" "color_palette ?s1 = color_palette s"
    by (simp_all add: get_color_from_palette_def Let_def)
  have f1: "fst (get_color_from_palette s) = getitem (color_palette s) (color_count s)"
    by (simp add: get_color_from_palette_def Let_def)
  from Suc.prems c1 have "0 \<le> color_count ?s1" by simp
  note ih = Suc.IH[OF this]
  have unf: "allocate_colors (Suc n) s =
      (fst (get_color_from_palette s) # fst (allocate_colors n ?s1), snd (allocate_colors n ?s1))"
    by (simp split: prod.splits)
  show ?case
    unfolding unf using ih c1 f1
    by (auto simp: nth_Cons split: nat.splits) (simp add: add.commute add.left_commute)?
qed

text \<open>
  C1, as the code has it. On a plot whose cursor is at its initial value 0, the
  \<open>k\<close>-th call of \<^verbatim>\<open>_get_color_from_palette\<close> (\<open>k \<ge> 1\<close>) returns
  \<open>palette[k-1]\<close> while \<open>k\<close> is at most the size of the palette, and raises
  \<^verbatim>\<open>IndexError\<close> once \<open>k\<close> exceeds it; in both cases the cursor is \<open>k\<close>
  afterwards. The index is never reduced modulo the size of the palette.
\<close>

theorem palette_allocation:
  assumes "color_count s = 0" and "1 \<le> k"
  shows "fst (allocate_colors k s) ! (k - 1) =
           (if k \<le> length (color_palette s) then Returns (color_palette s ! (k - 1))
            else Raises IndexError) \<and>
         color_count (snd (allocate_colors k s)) = int k"
proof -
  from assms have "0 \<le> color_count s" by simp
  from allocate_colors_gen[OF this, of k] assms
  have "fst (allocate_colors k s) ! (k - 1) = getitem (color_palette s) (int (k - 1))"
    and "color_count (snd (allocate_colors k s)) = int k" by auto
  moreover have "getitem (color_palette s) (int (k - 1)) =
      (if k \<le> length (color_palette s) then Returns (color_palette s ! (k - 1))
       else Raises IndexError)"
    using assms(2) unfolding getitem_nat by (cases k) auto
  ultimately show ?thesis by simp
qed

theorem palette_allocation_witness:
  "color_count (example_plot\<lparr>color_count := 0\<rparr>) = 0 \<and> (1::nat) \<le> 3 \<and>
   fst (allocate_colors 3 (example_plot\<lparr>color_count := 0\<rparr>)) ! (3 - 1) = Returns ''#4daf4a'' \<and>
   color_count (snd (allocate_colors 3 (example_plot\<lparr>color_count := 0\<rparr>))) = 3"
  using palette_allocation [of "example_plot\<lparr>color_count := 0\<rparr>" 3]
  by (simp add: example_plot_def Set1_9_def)

text \<open>
  C1 as stated fails: with the nine colors of \<^verbatim>\<open>Set1_9\<close> the tenth allocation does
  not return \<open>palette[(10 - 1) mod 9]\<close>, it raises \<^verbatim>\<open>IndexError\<close>.
\<close>

theorem tenth_allocation_raises:
  "length (color_palette example_plot) = 9 \<and>
   fst (allocate_colors 10 (example_plot\<lparr>color_count := 0\<rparr>)) ! (10 - 1) = Raises IndexError \<and>
   fst (allocate_colors 10 (example_plot\<lparr>color_count := 0\<rparr>)) ! (10 - 1)
     \<noteq> Returns (color_palette example_plot ! ((10 - 1) mod length (color_palette example_plot)))"
  by (simp add: eval_nat_numeral get_color_from_palette_def example_plot_def getitem_def Set1_9_def)


subsection \<open>Residuals\<close>

text \<open>
  C10. On a plot with at least one dataset (the constructor appends one),
  \<^verbatim>\<open>add_residuals\<close> sets \<^verbatim>\<open>show_residuals\<close> to true when the last dataset has
  \<^verbatim>\<open>nfits > 0\<close>, and changes nothing otherwise; so \<^verbatim>\<open>show_residuals\<close> goes from
  false to true only when the last dataset has a recorded fit.
\<close>

theorem add_residuals_needs_fit:
  assumes "datasets s \<noteq> []"
  shows "(0 < nfits (last (datasets s)) \<longrightarrow>
            add_residuals s = (Returns (), s\<lparr>show_residuals := True\<rparr>)) \<and>
         (\<not> 0 < nfits (last (datasets s)) \<longrightarrow> add_residuals s = (Returns (), s)) \<and>
         (show_residuals (snd (add_residuals s)) \<and> \<not> show_residuals s \<longrightarrow>
            0 < nfits (last (datasets s)))"
  using assms by (auto simp: add_residuals_def getitem_last)

theorem add_residuals_needs_fit_witness:
  "datasets example_plot \<noteq> [] \<and>
   \<not> 0 < nfits (last (datasets example_plot)) \<and>
   add_residuals example_plot = (Returns (), example_plot) \<and>
   \<not> show_residuals (snd (add_residuals example_plot)) \<and>
   datasets (example_plot\<lparr>datasets := [fitted_dataset]\<rparr>) \<noteq> [] \<and>
   show_residuals (snd (add_residuals (example_plot\<lparr>datasets := [fitted_dataset]\<rparr>)))"
  using add_residuals_needs_fit [of example_plot]
    add_residuals_needs_fit [of "example_plot\<lparr>datasets := [fitted_dataset]\<rparr>"]
  by (simp add: example_plot_def example_dataset_def fitted_dataset_def)

subsection \<open>Setting the range\<close>

lemma range_lists_plot_fields:
  "lists range_lists_plot 2 = [Fin 0, Fin 1, Fin 2]"
  "lists range_lists_plot 3 = [Fin 0, Fin 20]"
  "x_range range_lists_plot = 0"
  "y_range range_lists_plot = 1"
  "lists range_lists_plot 0 = [Fin (- (1 / 2)), Fin (21 / 2)]"
  by (simp_all add: range_lists_plot_def new_list_def example_plot_def)

text \<open>
  C4. \<^verbatim>\<open>set_plot_range\<close> never raises. The x range of the plot becomes the argument
  itself (the same list object) when the argument is an array of two elements, and
  is left as it was for every other argument; an argument that is given (not
  \<^verbatim>\<open>None\<close>) and is not an array of two elements has its message printed. The same
  holds for y. Nothing else of the plot changes, and no list is written.
\<close>

theorem set_plot_range_guard:
  assumes "set_plot_range xa ya s w = (out, s', w')"
  shows "out = Returns () \<and>
         (\<forall>a. xa = RangeArray a \<and> length (lists s a) = 2 \<longrightarrow>
                x_range s' = a \<and> x_list s' = lists s a) \<and>
         (\<forall>a. ya = RangeArray a \<and> length (lists s a) = 2 \<longrightarrow>
                y_range s' = a \<and> y_list s' = lists s a) \<and>
         (\<not> two_elements s xa \<longrightarrow> x_range s' = x_range s \<and> x_list s' = x_list s) \<and>
         (\<not> two_elements s ya \<longrightarrow> y_range s' = y_range s \<and> y_list s' = y_list s) \<and>
         s' = s\<lparr>x_range := x_range s', y_range := y_range s'\<rparr> \<and>
         console w' = console w
           @ (if xa \<noteq> RangeNone \<and> \<not> two_elements s xa then [x_range_message] else [])
           @ (if ya \<noteq> RangeNone \<and> \<not> two_elements s ya then [y_range_message] else [])"
  using assms
  by (cases xa; cases ya)
     (auto simp: set_plot_range_def two_elements_def print_def x_list_def y_list_def
           split: if_splits)

theorem set_plot_range_guard_witness:
  "fst (set_plot_range (RangeArray 2) (RangeArray 3) range_lists_plot example_world)
     = Returns () \<and>
   lists range_lists_plot 2 = [Fin 0, Fin 1, Fin 2] \<and>
   lists range_lists_plot 3 = [Fin 0, Fin 20] \<and>
   \<not> two_elements range_lists_plot (RangeArray 2) \<and>
   x_range (fst (snd (set_plot_range (RangeArray 2) (RangeArray 3)
                        range_lists_plot example_world))) = x_range range_lists_plot \<and>
   y_range (fst (snd (set_plot_range (RangeArray 2) (RangeArray 3)
                        range_lists_plot example_world))) = 3 \<and>
   y_list (fst (snd (set_plot_range (RangeArray 2) (RangeArray 3)
                        range_lists_plot example_world))) = [Fin 0, Fin 20] \<and>
   console (snd (snd (set_plot_range (RangeArray 2) (RangeArray 3)
                        range_lists_plot example_world))) = [x_range_message]"
  using set_plot_range_guard
    [of "RangeArray 2" "RangeArray 3" range_lists_plot example_world
        "fst (set_plot_range (RangeArray 2) (RangeArray 3) range_lists_plot example_world)"
        "fst (snd (set_plot_range (RangeArray 2) (RangeArray 3) range_lists_plot example_world))"
        "snd (snd (set_plot_range (RangeArray 2) (RangeArray 3) range_lists_plot example_world))"]
  by (simp add: two_elements_def example_world_def range_lists_plot_fields)

subsection \<open>Unrecognized parameters\<close>



subsection \<open>Labels\<close>

text \<open>
  C7, at a plot constructed with the data name \<^verbatim>\<open>run 1\<close>:
  \<^verbatim>\<open>set_labels(data_name="run 2")\<close> leaves the entry \<^verbatim>\<open>'data'\<close> made by the constructor
  at \<^verbatim>\<open>run 1\<close> and creates a new entry \<^verbatim>\<open>'Data'\<close>.
\<close>

theorem set_labels_data_name_key:
  "Plot_init (\<lambda>raw n. example_dataset) () (Some ''run 1'') None = Returns example_plot \<and>
   fst (set_labels None None None (Some ''run 2'') example_plot) = Returns () \<and>
   labels (snd (set_labels None None None (Some ''run 2'') example_plot)) ''data''
     = Some (Some ''run 1'') \<and>
   labels (snd (set_labels None None None (Some ''run 2'') example_plot)) ''Data''
     = Some (Some ''run 2'') \<and>
   labels example_plot ''Data'' = None"
  by (simp add: Plot_init_example set_labels_def) (simp add: example_plot_def)


subsection \<open>The evaluation flag\<close>

lemma add_function_world:
  "snd (snd (add_function function ps name color s w)) =
     (if 2 \<le> length (x_list s)
      then snd (function_values function ps (linspace (x_list s ! 0) (x_list s ! 1) 100) w)
      else w)"
  by (auto simp: add_function_def getitem_0 getitem_1 split: prod.splits option.splits outcome.splits)


text \<open>
  C5, as the code has it. For \<^verbatim>\<open>add_function\<close> with a \<^verbatim>\<open>Measurement_Array\<close>: when the
  function, called with \<^verbatim>\<open>minmax_n = 1\<close>, returns normally and \<^verbatim>\<open>get_means()\<close> of
  its result returns normally, the flag \<^verbatim>\<open>minmax_n\<close> has after the call the value it
  had before, whether the rest of the call returns or raises; the module state is
  the one the function left, with the flag set back.
\<close>

theorem minmax_n_restored:
  assumes "function (linspace (x_list s ! 0) (x_list s ! 1) 100) (map Uncertain ms)
             (w\<lparr>minmax_n := 1\<rparr>) = (Returns fmes, w1)"
      and "get_means fmes = Returns fvals"
  shows "minmax_n (snd (snd (add_function function (ParsMeasurementArray ms) name color s w)))
           = minmax_n w \<and>
         (2 \<le> length (x_list s) \<longrightarrow>
            snd (snd (add_function function (ParsMeasurementArray ms) name color s w))
              = w1\<lparr>minmax_n := minmax_n w\<rparr>)"
  using assms by (simp add: add_function_world function_values_def)

theorem minmax_n_restored_witness:
  "measured_function (linspace (x_list example_plot ! 0) (x_list example_plot ! 1) 100)
     (map Uncertain example_measurements) (example_world\<lparr>minmax_n := 1\<rparr>)
     = (Returns (ArrayObj (Raises TypeError) (Raises TypeError)
                  (Returns (ndarray [Fin 1, Fin 2]))),
        example_world\<lparr>minmax_n := 1\<rparr>) \<and>
   get_means (ArrayObj (Raises TypeError) (Raises TypeError) (Returns (ndarray [Fin 1, Fin 2])))
     = Returns (ndarray [Fin 1, Fin 2]) \<and>
   minmax_n example_world = 100 \<and>
   minmax_n (snd (snd (add_function measured_function (ParsMeasurementArray example_measurements)
                         None None example_plot example_world))) = 100"
  using minmax_n_restored [of measured_function example_plot example_measurements example_world
      "ArrayObj (Raises TypeError) (Raises TypeError) (Returns (ndarray [Fin 1, Fin 2]))"
      "example_world\<lparr>minmax_n := 1\<rparr>" "ndarray [Fin 1, Fin 2]" None None]
  by (simp add: measured_function_def example_world_def)


text \<open>
  C5 as stated fails: a function that returns normally, but returns an object without
  \<^verbatim>\<open>get_means\<close> (a plain numpy array), makes line 138 raise \<^verbatim>\<open>AttributeError\<close> before
  line 139 is reached, and the flag is left at 1 where it was 100.
\<close>

theorem minmax_n_leaks:
  "fst (plain_function (linspace (x_list example_plot ! 0) (x_list example_plot ! 1) 100)
          (map Uncertain example_measurements) (example_world\<lparr>minmax_n := 1\<rparr>))
     = Returns (ndarray [Fin 1, Fin 2]) \<and>
   minmax_n example_world = 100 \<and>
   fst (add_function plain_function (ParsMeasurementArray example_measurements)
          None None example_plot example_world) = Raises AttributeError \<and>
   minmax_n (snd (snd (add_function plain_function (ParsMeasurementArray example_measurements)
                         None None example_plot example_world))) = 1"
  by (simp add: plain_function_def example_world_def add_function_def getitem_0 getitem_1
      function_values_def ndarray_def) (simp add: example_plot_def x_list_def)

subsection \<open>Colors of the functions of a fresh plot\<close>

lemma example_plot_fields:
  "x_list example_plot = [Fin (- (1 / 2)), Fin (21 / 2)]"
  "y_list example_plot = [Fin (- (1 / 2)), Fin (11 / 2)]"
  "x_range example_plot = 0"
  "y_range example_plot = 1"
  "y_range_margin example_plot = Fin (1 / 2)"
  "x_range_margin example_plot = Fin (1 / 2)"
  "color_palette example_plot = Set1_9"
  "color_count example_plot = 1"
  "user_functions_colors example_plot = []"
  "user_functions_count example_plot = 0"
  "datasets example_plot = [example_dataset]"
  "datasets_colors example_plot = [''#e41a1c'']"
  by (simp_all add: example_plot_def x_list_def y_list_def)

lemma plain_function_values:
  "function_values plain_function ParsNone xs w = (Some (Returns (ndarray [Fin 1, Fin 2])), w)"
  by (simp add: function_values_def plain_function_def)

lemma plain_entry:
  assumes "y_list s = [Fin (- (1 / 2)), Fin (11 / 2)]" and "y_range_margin s = Fin (1 / 2)"
    and "color_palette s = Set1_9" and "color_count s = k" and "1 \<le> k" and "k \<le> 8"
  shows "fst (add_function_entry plain_function ParsNone None None (ndarray [Fin 1, Fin 2]) s) = Returns () \<and>
         user_functions_colors (snd (add_function_entry plain_function ParsNone None None (ndarray [Fin 1, Fin 2]) s))
           = user_functions_colors s @ [Set1_9 ! nat k] \<and>
         y_list (snd (add_function_entry plain_function ParsNone None None (ndarray [Fin 1, Fin 2]) s)) = y_list s \<and>
         y_range_margin (snd (add_function_entry plain_function ParsNone None None (ndarray [Fin 1, Fin 2]) s)) = y_range_margin s \<and>
         x_list (snd (add_function_entry plain_function ParsNone None None (ndarray [Fin 1, Fin 2]) s)) = x_list s \<and>
         color_palette (snd (add_function_entry plain_function ParsNone None None (ndarray [Fin 1, Fin 2]) s)) = Set1_9 \<and>
         color_count (snd (add_function_entry plain_function ParsNone None None (ndarray [Fin 1, Fin 2]) s)) = k + 1"
  using assms
  unfolding add_function_entry_def Let_def get_color_from_palette_def
  by (simp add: ndarray_def raise_to_def lower_to_def getitem_0 getitem_1 getitem_def Set1_9_def
      np_max_def np_min_def write_list_def x_list_def y_list_def)

lemma plain_call:
  assumes "x_list s = [Fin (- (1 / 2)), Fin (21 / 2)]"
  shows "add_function plain_function ParsNone None None s w =
          (fst (add_function_entry plain_function ParsNone None None (ndarray [Fin 1, Fin 2]) s),
           snd (add_function_entry plain_function ParsNone None None (ndarray [Fin 1, Fin 2]) s), w)"
  using assms
  by (simp add: add_function_def getitem_0 getitem_1 plain_function_values split: prod.splits)

lemma first_call_facts:
  "fst first_call = Returns ()"
  "user_functions_colors (fst (snd first_call)) = [Set1_9 ! 1]"
  "x_list (fst (snd first_call)) = [Fin (- (1 / 2)), Fin (21 / 2)]"
  "y_list (fst (snd first_call)) = [Fin (- (1 / 2)), Fin (11 / 2)]"
  "y_range_margin (fst (snd first_call)) = Fin (1 / 2)"
  "color_palette (fst (snd first_call)) = Set1_9"
  "color_count (fst (snd first_call)) = 2"
  using plain_entry[of example_plot 1]
  by (simp_all add: first_call_def plain_call example_plot_fields)

lemma second_call_facts:
  "fst second_call = Returns ()"
  "user_functions_colors (fst (snd second_call)) = [Set1_9 ! 1, Set1_9 ! 2]"
  using plain_entry[of "fst (snd first_call)" 2]
  by (simp_all add: second_call_def plain_call first_call_facts)

lemma add_function_entry_color:
  assumes "add_function_entry f p n None fvals s = (Returns (), s')"
  shows "getitem (color_palette s) (color_count s) = Returns (last (user_functions_colors s')) \<and>
         user_functions_colors s' = user_functions_colors s @ [last (user_functions_colors s')] \<and>
         color_count s' = color_count s + 1 \<and> color_palette s' = color_palette s"
  using assms unfolding add_function_entry_def Let_def get_color_from_palette_def write_list_def
  by (clarsimp split: outcome.splits)

lemma add_function_unfold:
  assumes "add_function f p n color s w = (Returns (), s', w')" and "p \<noteq> ParsOther"
  shows "\<exists>fvals. add_function_entry f p n color fvals s = (Returns (), s') \<and>
           function_values f p (linspace (x_list s ! 0) (x_list s ! 1) 100) w
             = (Some (Returns fvals), w') \<and> 2 \<le> length (x_list s)"
proof -
  have nn: "fst (function_values f p xs w) \<noteq> None" for xs
    using assms(2) by (cases p) (simp_all add: function_values_def Let_def split: prod.splits outcome.splits)
  show ?thesis
    using assms(1) nn[of "linspace (x_list s ! 0) (x_list s ! 1) 100"]
    unfolding add_function_def getitem_0 getitem_1
    by (clarsimp split: if_splits prod.splits option.splits outcome.splits)
qed

lemma add_function_color:
  assumes "add_function f p n None s w = (Returns (), s', w')" and "p \<noteq> ParsOther"
  shows "getitem (color_palette s) (color_count s) = Returns (last (user_functions_colors s')) \<and>
         user_functions_colors s' = user_functions_colors s @ [last (user_functions_colors s')] \<and>
         color_count s' = color_count s + 1 \<and> color_palette s' = color_palette s"
  using add_function_unfold[OF assms] add_function_entry_color by blast

lemma Plot_init_colors:
  assumes "Plot_init XYDataSet raw data_name dataset = Returns s0"
  shows "color_palette s0 = Set1_9 \<and> color_count s0 = 1 \<and> user_functions_colors s0 = [] \<and>
         datasets_colors s0 = [Set1_9 ! 0]"
  using assms unfolding Plot_init_def Let_def get_color_from_palette_def set_range_from_dataset_def
    new_list_def
  by (clarsimp simp: getitem_def Set1_9_def)

text \<open>
  C6, as the code has it. The constructor takes \<open>palette[0]\<close> for the first dataset;
  two calls of \<^verbatim>\<open>add_function\<close> with no color on the plot it returns, both returning
  and both with a recognized \<open>pars\<close>, are given \<open>palette[1]\<close> and \<open>palette[2]\<close>,
  which are distinct.
\<close>

theorem fresh_plot_function_colors:
  assumes "Plot_init XYDataSet raw data_name dataset = Returns s0"
      and "add_function f1 p1 n1 None s0 w0 = (Returns (), s1, w1)"
      and "add_function f2 p2 n2 None s1 w1 = (Returns (), s2, w2)"
      and "p1 \<noteq> ParsOther" and "p2 \<noteq> ParsOther"
  shows "datasets_colors s0 = [Set1_9 ! 0] \<and>
         user_functions_colors s2 = [Set1_9 ! 1, Set1_9 ! 2] \<and>
         Set1_9 ! 1 \<noteq> Set1_9 ! 2"
proof -
  note i = Plot_init_colors[OF assms(1)]
  note a = add_function_color[OF assms(2) assms(4)]
  note b = add_function_color[OF assms(3) assms(5)]
  have g1: "getitem Set1_9 1 = Returns (Set1_9 ! 1)" "getitem Set1_9 2 = Returns (Set1_9 ! 2)"
    by (simp_all add: getitem_def Set1_9_def)
  from i a g1 have c1: "last (user_functions_colors s1) = Set1_9 ! 1" by simp
  from i a b g1 have c2: "last (user_functions_colors s2) = Set1_9 ! 2" by simp
  have "user_functions_colors s2 = [Set1_9 ! 1, Set1_9 ! 2]"
    using i a b c1 c2 by simp
  moreover have "Set1_9 ! 1 \<noteq> Set1_9 ! 2" by (simp add: Set1_9_def)
  ultimately show ?thesis using i by simp
qed

theorem fresh_plot_function_colors_witness:
  "Plot_init (\<lambda>raw n. example_dataset) () (Some ''run 1'') None = Returns example_plot \<and>
   first_call = (Returns (), fst (snd first_call), snd (snd first_call)) \<and>
   second_call = (Returns (), fst (snd second_call), snd (snd second_call)) \<and>
   user_functions_colors (fst (snd second_call)) = [''#377eb8'', ''#4daf4a'']"
proof -
  have a: "first_call = (Returns (), fst (snd first_call), snd (snd first_call))"
    using first_call_facts(1) by (simp add: prod_eq_iff)
  have b: "second_call = (Returns (), fst (snd second_call), snd (snd second_call))"
    using second_call_facts(1) by (simp add: prod_eq_iff)
  have a': "add_function plain_function ParsNone None None example_plot example_world
              = (Returns (), fst (snd first_call), snd (snd first_call))"
    using a by (simp only: first_call_def [symmetric])
  have b': "add_function plain_function ParsNone None None (fst (snd first_call))
              (snd (snd first_call))
              = (Returns (), fst (snd second_call), snd (snd second_call))"
    using b by (simp only: second_call_def [symmetric])
  have "user_functions_colors (fst (snd second_call)) = [Set1_9 ! 1, Set1_9 ! 2]"
    using fresh_plot_function_colors [OF Plot_init_example a' b'] by simp
  then have "user_functions_colors (fst (snd second_call)) = [''#377eb8'', ''#4daf4a'']"
    by (simp add: Set1_9_def)
  with a b Plot_init_example show ?thesis by blast
qed

text \<open>
  C6 as stated fails: on the example plot, fresh from the constructor, the two
  functions are given \<open>palette[1]\<close> and \<open>palette[2]\<close>, not \<open>palette[0]\<close> and
  \<open>palette[1]\<close>.
\<close>

theorem fresh_plot_first_color_is_second_entry:
  "Plot_init (\<lambda>raw n. example_dataset) () (Some ''run 1'') None = Returns example_plot \<and>
   fst first_call = Returns () \<and> fst second_call = Returns () \<and>
   user_functions_colors (fst (snd second_call)) = [Set1_9 ! 1, Set1_9 ! 2] \<and>
   user_functions_colors (fst (snd second_call)) \<noteq> [Set1_9 ! 0, Set1_9 ! 1]"
  by (simp add: Plot_init_example first_call_facts second_call_facts) (simp add: Set1_9_def)

subsection \<open>The linear fit and the x range\<close>

lemma setitem_0: "setitem xs 0 v = (if xs = [] then Raises IndexError else Returns (xs[0 := v]))"
  by (simp add: setitem_def)













subsection \<open>The ranges enclose what was added\<close>

lemma setitem_1:
  "setitem xs 1 v = (if 2 \<le> length xs then Returns (xs[1 := v]) else Raises IndexError)"
  by (auto simp: setitem_def)

lemma grows_refl: "grows r r"
  by (simp add: grows_def)

lemma grows_trans: "grows a b \<Longrightarrow> grows b c \<Longrightarrow> grows a c"
  by (auto simp: grows_def dest: pyfloat_less_trans)

lemma grows_keeps:
  assumes "grows r r'"
  shows "r ! 0 \<le> v \<Longrightarrow> r' ! 0 \<le> v" and "v \<le> r ! 1 \<Longrightarrow> v \<le> r' ! 1"
    and "number (r ! 0) \<Longrightarrow> number (r' ! 0)" and "number (r ! 1) \<Longrightarrow> number (r' ! 1)"
    and "length r' = length r"
  using assms
  by (auto simp: grows_def dest: pyfloat_less_le_trans pyfloat_le_less_trans less_number)

lemma covers_grows: "covers r lo hi \<Longrightarrow> grows r r' \<Longrightarrow> covers r' lo hi"
  using grows_keeps [of r r'] by (simp add: covers_def)

lemma numeric_bounds_grows: "numeric_bounds r \<Longrightarrow> grows r r' \<Longrightarrow> numeric_bounds r'"
  using grows_keeps [of r r'] by (simp add: numeric_bounds_def)

lemma lower_to_result:
  assumes "lower_to r v = Returns r'"
  shows "grows r r' \<and> r \<noteq> [] \<and> (number v \<and> number (r ! 0) \<longrightarrow> r' ! 0 \<le> v)"
  using assms unfolding lower_to_def getitem_0 setitem_0
  by (auto simp: grows_def pyfloat_le_refl pyfloat_not_less split: if_splits)

lemma raise_to_result:
  assumes "raise_to r v = Returns r'"
  shows "grows r r' \<and> 2 \<le> length r \<and> (number v \<and> number (r ! 1) \<longrightarrow> v \<le> r' ! 1)"
  using assms unfolding raise_to_def getitem_1 setitem_1
  by (auto simp: grows_def pyfloat_le_refl pyfloat_not_less split: if_splits)

lemma widened_refl: "widened s s"
  by (simp add: widened_def grows_refl)

lemma widened_trans: "widened s t \<Longrightarrow> widened t u \<Longrightarrow> widened s u"
  unfolding widened_def by (metis grows_trans)

lemma widened_lists:
  assumes "widened s t"
  shows "grows (x_list s) (x_list t)" and "grows (y_list s) (y_list t)"
  using assms by (simp_all add: widened_def x_list_def y_list_def)

lemma widened_update [simp]:
  "widened s (t\<lparr>datasets := ds\<rparr>) = widened s t"
  "widened s (t\<lparr>datasets_colors := cs\<rparr>) = widened s t"
  "widened s (t\<lparr>color_count := k\<rparr>) = widened s t"
  "widened s (t\<lparr>user_functions := fs\<rparr>) = widened s t"
  "widened s (t\<lparr>user_functions_pars := ps\<rparr>) = widened s t"
  "widened s (t\<lparr>user_functions_names := ns\<rparr>) = widened s t"
  "widened s (t\<lparr>user_functions_count := k\<rparr>) = widened s t"
  "widened s (t\<lparr>user_functions_colors := cs\<rparr>) = widened s t"
  by (simp_all add: widened_def)

lemma widened_of_update [simp]:
  "widened (s\<lparr>datasets := ds\<rparr>) t = widened s t"
  "widened (s\<lparr>datasets_colors := cs\<rparr>) t = widened s t"
  "widened (s\<lparr>color_count := k\<rparr>) t = widened s t"
  by (simp_all add: widened_def)

lemma list_of_update [simp]:
  "x_list (s\<lparr>user_functions := fs\<rparr>) = x_list s"
  "x_list (s\<lparr>user_functions_pars := ps\<rparr>) = x_list s"
  "x_list (s\<lparr>user_functions_names := ns\<rparr>) = x_list s"
  "x_list (s\<lparr>user_functions_count := k\<rparr>) = x_list s"
  "x_list (s\<lparr>user_functions_colors := cs\<rparr>) = x_list s"
  "y_list (s\<lparr>user_functions := fs\<rparr>) = y_list s"
  "y_list (s\<lparr>user_functions_pars := ps\<rparr>) = y_list s"
  "y_list (s\<lparr>user_functions_names := ns\<rparr>) = y_list s"
  "y_list (s\<lparr>user_functions_count := k\<rparr>) = y_list s"
  "y_list (s\<lparr>user_functions_colors := cs\<rparr>) = y_list s"
  by (simp_all add: x_list_def y_list_def)

lemma write_list_fields [simp]:
  "x_range (write_list a r s) = x_range s"
  "y_range (write_list a r s) = y_range s"
  "x_range_margin (write_list a r s) = x_range_margin s"
  "y_range_margin (write_list a r s) = y_range_margin s"
  "user_functions_count (write_list a r s) = user_functions_count s"
  "user_functions_colors (write_list a r s) = user_functions_colors s"
  "color_count (write_list a r s) = color_count s"
  "color_palette (write_list a r s) = color_palette s"
  by (simp_all add: write_list_def)

lemma x_list_write: "x_list (write_list (x_range s) r s) = r"
  by (simp add: x_list_def write_list_def)

lemma y_list_write: "y_list (write_list (y_range s) r s) = r"
  by (simp add: y_list_def write_list_def)

lemma write_list_widened: "grows (lists s a) r \<Longrightarrow> widened s (write_list a r s)"
  by (simp add: widened_def write_list_def grows_refl)

lemma x_lower_step:
  assumes "lower_to (x_list s) v = Returns r"
  shows "widened s (write_list (x_range s) r s)"
    and "number v \<Longrightarrow> number (x_list s ! 0) \<Longrightarrow> x_list (write_list (x_range s) r s) ! 0 \<le> v"
  using lower_to_result [OF assms] write_list_widened [of s "x_range s" r]
  by (simp_all add: x_list_write) (simp add: x_list_def)

lemma x_raise_step:
  assumes "raise_to (x_list s) v = Returns r"
  shows "widened s (write_list (x_range s) r s)"
    and "number v \<Longrightarrow> number (x_list s ! 1) \<Longrightarrow> v \<le> x_list (write_list (x_range s) r s) ! 1"
    and "2 \<le> length (x_list s)"
  using raise_to_result [OF assms] write_list_widened [of s "x_range s" r]
  by (simp_all add: x_list_write) (simp add: x_list_def)

lemma y_lower_step:
  assumes "lower_to (y_list s) v = Returns r"
  shows "widened s (write_list (y_range s) r s)"
    and "number v \<Longrightarrow> number (y_list s ! 0) \<Longrightarrow> y_list (write_list (y_range s) r s) ! 0 \<le> v"
  using lower_to_result [OF assms] write_list_widened [of s "y_range s" r]
  by (simp_all add: y_list_write) (simp add: y_list_def)

lemma y_raise_step:
  assumes "raise_to (y_list s) v = Returns r"
  shows "widened s (write_list (y_range s) r s)"
    and "number v \<Longrightarrow> number (y_list s ! 1) \<Longrightarrow> v \<le> y_list (write_list (y_range s) r s) ! 1"
    and "2 \<le> length (y_list s)"
  using raise_to_result [OF assms] write_list_widened [of s "y_range s" r]
  by (simp_all add: y_list_write) (simp add: y_list_def)

lemma x_lower_chain:
  "widened s t \<Longrightarrow> lower_to (x_list t) v = Returns r \<Longrightarrow> widened s (write_list (x_range s) r t)"
  using x_lower_step(1) [of t v r] widened_trans [of s t "write_list (x_range t) r t"]
  by (simp add: widened_def)

lemma x_raise_chain:
  "widened s t \<Longrightarrow> raise_to (x_list t) v = Returns r \<Longrightarrow> widened s (write_list (x_range s) r t)"
  using x_raise_step(1) [of t v r] widened_trans [of s t "write_list (x_range t) r t"]
  by (simp add: widened_def)

lemma y_lower_chain:
  "widened s t \<Longrightarrow> lower_to (y_list t) v = Returns r \<Longrightarrow> widened s (write_list (y_range s) r t)"
  using y_lower_step(1) [of t v r] widened_trans [of s t "write_list (y_range t) r t"]
  by (simp add: widened_def)

lemma y_raise_chain:
  "widened s t \<Longrightarrow> raise_to (y_list t) v = Returns r \<Longrightarrow> widened s (write_list (y_range s) r t)"
  using y_raise_step(1) [of t v r] widened_trans [of s t "write_list (y_range t) r t"]
  by (simp add: widened_def)

lemmas range_chain = widened_refl x_lower_chain x_raise_chain y_lower_chain y_raise_chain

lemma widen_ranges_widened:
  assumes "widen_ranges xr yr s = (out, s')"
  shows "widened s s'"
  using assms unfolding widen_ranges_def Let_def
  apply (clarsimp split: outcome.splits)
          apply (blast intro: range_chain)+
  done

lemma widen_ranges_returns:
  assumes "widen_ranges xr yr s = (Returns (), s')"
  shows "\<exists>r1 r2 r3 r4 t1 t2 t3.
           2 \<le> length xr \<and> 2 \<le> length yr \<and>
           lower_to (x_list s) (xr ! 0) = Returns r1 \<and> t1 = write_list (x_range s) r1 s \<and>
           raise_to (x_list t1) (xr ! 1) = Returns r2 \<and> t2 = write_list (x_range s) r2 t1 \<and>
           lower_to (y_list t2) (yr ! 0) = Returns r3 \<and> t3 = write_list (y_range s) r3 t2 \<and>
           raise_to (y_list t3) (yr ! 1) = Returns r4 \<and> s' = write_list (y_range s) r4 t3"
  using assms unfolding widen_ranges_def Let_def getitem_0 getitem_1
  by (clarsimp split: outcome.splits if_splits)

lemma widen_ranges_covers:
  assumes "widen_ranges xr yr s = (Returns (), s')"
      and "numeric_bounds (x_list s)" and "numeric_bounds (y_list s)"
      and "number (xr ! 0)" and "number (xr ! 1)" and "number (yr ! 0)" and "number (yr ! 1)"
  shows "covers (x_list s') (xr ! 0) (xr ! 1) \<and> covers (y_list s') (yr ! 0) (yr ! 1)"
proof -
  from widen_ranges_returns [OF assms(1)] obtain r1 r2 r3 r4 t1 t2 t3 where
    l1: "lower_to (x_list s) (xr ! 0) = Returns r1" and t1: "t1 = write_list (x_range s) r1 s" and
    l2: "raise_to (x_list t1) (xr ! 1) = Returns r2" and t2: "t2 = write_list (x_range s) r2 t1" and
    l3: "lower_to (y_list t2) (yr ! 0) = Returns r3" and t3: "t3 = write_list (y_range s) r3 t2" and
    l4: "raise_to (y_list t3) (yr ! 1) = Returns r4" and s': "s' = write_list (y_range s) r4 t3"
    by blast
  have w1: "widened s t1" using x_lower_step(1) [OF l1] t1 by simp
  have w2: "widened t1 t2" using x_raise_step(1) [OF l2] t1 t2 by simp
  have w3: "widened t2 t3" using y_lower_step(1) [OF l3] t1 t2 t3 by simp
  have w4: "widened t3 s'" using y_raise_step(1) [OF l4] t1 t2 t3 s' by simp
  note w12 = widened_trans [OF w1 w2]
  note w13 = widened_trans [OF w12 w3]
  note w24 = widened_trans [OF w2 widened_trans [OF w3 w4]]
  note w14 = widened_trans [OF w1 w24]
  have n1: "number (x_list t1 ! 1)"
    using assms(2) grows_keeps(4) [OF widened_lists(1) [OF w1]] by (simp add: numeric_bounds_def)
  have n2: "number (y_list t2 ! 0)"
    using assms(3) grows_keeps(3) [OF widened_lists(2) [OF w12]] by (simp add: numeric_bounds_def)
  have n3: "number (y_list t3 ! 1)"
    using assms(3) grows_keeps(4) [OF widened_lists(2) [OF w13]] by (simp add: numeric_bounds_def)
  have f1: "x_list t1 ! 0 \<le> xr ! 0"
    using x_lower_step(2) [OF l1] assms(2,4) t1 by (simp add: numeric_bounds_def)
  have f2: "xr ! 1 \<le> x_list t2 ! 1"
    using x_raise_step(2) [OF l2] assms(5) n1 t1 t2 by simp
  have f3: "y_list t3 ! 0 \<le> yr ! 0"
    using y_lower_step(2) [OF l3] assms(6) n2 t1 t2 t3 by simp
  have f4: "yr ! 1 \<le> y_list s' ! 1"
    using y_raise_step(2) [OF l4] assms(7) n3 t1 t2 t3 s' by simp
  have g1: "x_list s' ! 0 \<le> xr ! 0"
    using grows_keeps(1) [OF widened_lists(1) [OF w24] f1] .
  have g2: "xr ! 1 \<le> x_list s' ! 1"
    using grows_keeps(2) [OF widened_lists(1) [OF widened_trans [OF w3 w4]] f2] .
  have g3: "y_list s' ! 0 \<le> yr ! 0"
    using grows_keeps(1) [OF widened_lists(2) [OF w4] f3] .
  have k1: "2 \<le> length (x_list s')"
    using x_raise_step(3) [OF l2] grows_keeps(5) [OF widened_lists(1) [OF w24]] by simp
  have k2: "2 \<le> length (y_list s')"
    using y_raise_step(3) [OF l4] grows_keeps(5) [OF widened_lists(2) [OF w4]] by simp
  show ?thesis
    using g1 g2 g3 f4 k1 k2 by (simp add: covers_def)
qed

lemma widen_ranges_covers_imp:
  "widen_ranges xr yr s = (Returns (), s') \<Longrightarrow>
     numeric_bounds (x_list s) \<and> numeric_bounds (y_list s) \<and>
     number (xr ! 0) \<and> number (xr ! 1) \<and> number (yr ! 0) \<and> number (yr ! 1) \<longrightarrow>
     covers (x_list s') (xr ! 0) (xr ! 1) \<and> covers (y_list s') (yr ! 0) (yr ! 1)"
  using widen_ranges_covers by blast

lemma add_dataset_widened:
  assumes "add_dataset d color name s = (out, s')"
  shows "widened s s'"
  using assms unfolding add_dataset_def Let_def get_color_from_palette_def
  by (auto simp: widened_refl split: option.splits outcome.splits dest!: widen_ranges_widened)

lemma add_dataset_covers:
  assumes "add_dataset d color name s = (Returns (), s')"
      and "numeric_bounds (x_list s)" and "numeric_bounds (y_list s)"
      and "asks_numbers (AddDataset d color name) s w"
  shows "enclosed (AddDataset d color name) s w s'"
  using assms unfolding add_dataset_def Let_def get_color_from_palette_def
  by (auto split: option.splits outcome.splits dest!: widen_ranges_covers_imp)
lemma y_list_write_gen: "y_list (write_list a r t) = (if y_range t = a then r else y_list t)"
  by (simp add: y_list_def write_list_def)

lemma add_function_entry_widened:
  assumes "add_function_entry f p n color fvals s = (out, s')"
  shows "widened s s'"
  using assms unfolding add_function_entry_def Let_def get_color_from_palette_def
  apply (clarsimp split: outcome.splits option.splits)
  apply (blast intro: range_chain)+
  done

lemma add_function_entry_returns:
  assumes "add_function_entry f p n color fvals s = (Returns (), s')"
  shows "\<exists>mn mx r1 r2.
           arr_max fvals = Returns mx \<and> arr_min fvals = Returns mn \<and>
           raise_to (y_list s) (mx + y_range_margin s) = Returns r1 \<and>
           lower_to (y_list (write_list (y_range s) r1 s)) (mn - y_range_margin s) = Returns r2 \<and>
           y_list s' = r2"
  using assms unfolding add_function_entry_def Let_def get_color_from_palette_def
  by (clarsimp simp: y_list_write_gen split: outcome.splits option.splits)

lemma add_function_entry_covers:
  assumes "add_function_entry f p n color fvals s = (Returns (), s')"
  shows "\<exists>mn mx. arr_min fvals = Returns mn \<and> arr_max fvals = Returns mx \<and>
           (numeric_bounds (y_list s) \<and> number (mn - y_range_margin s) \<and>
            number (mx + y_range_margin s) \<longrightarrow>
              covers (y_list s') (mn - y_range_margin s) (mx + y_range_margin s))"
proof -
  from add_function_entry_returns [OF assms] obtain mn mx r1 r2 where
    a: "arr_max fvals = Returns mx" "arr_min fvals = Returns mn" and
    l1: "raise_to (y_list s) (mx + y_range_margin s) = Returns r1" and
    l2: "lower_to (y_list (write_list (y_range s) r1 s)) (mn - y_range_margin s) = Returns r2" and
    y: "y_list s' = r2" by blast
  define t1 where "t1 = write_list (y_range s) r1 s"
  have yt1: "y_list t1 = r1" by (simp add: t1_def y_list_write)
  have l2': "lower_to r1 (mn - y_range_margin s) = Returns r2"
    using l2 by (simp add: y_list_write)
  note u1 = raise_to_result [OF l1]
  note u2 = lower_to_result [OF l2']
  have "covers r2 (mn - y_range_margin s) (mx + y_range_margin s)"
    if n: "numeric_bounds (y_list s)" "number (mn - y_range_margin s)"
      "number (mx + y_range_margin s)"
  proof -
    have f1: "mx + y_range_margin s \<le> r1 ! 1"
      using u1 n by (simp add: numeric_bounds_def)
    have n1: "number (r1 ! 0)"
      using u1 n(1) grows_keeps(3) [of "y_list s" r1] by (simp add: numeric_bounds_def)
    have f2: "r2 ! 0 \<le> mn - y_range_margin s"
      using u2 n(2) n1 by simp
    have f3: "mx + y_range_margin s \<le> r2 ! 1"
      using grows_keeps(2) [of r1 r2, OF _ f1] u2 by simp
    have "2 \<le> length r2"
      using u1 u2 grows_keeps(5) [of "y_list s" r1] grows_keeps(5) [of r1 r2] by simp
    with f2 f3 show ?thesis by (simp add: covers_def)
  qed
  with a y show ?thesis by blast
qed
lemma add_function_with_bounds:
  assumes "2 \<le> length (x_list s)"
  shows "add_function f p n color s w =
           (case function_values f p (linspace (x_list s ! 0) (x_list s ! 1) 100) w of
              (None, w1) \<Rightarrow> (Returns (), s, w1)
            | (Some (Raises e), w1) \<Rightarrow> (Raises e, s, w1)
            | (Some (Returns fvals), w1) \<Rightarrow>
                (case add_function_entry f p n color fvals s of (out, s1) \<Rightarrow> (out, s1, w1)))"
  using assms by (auto simp: add_function_def getitem_0 getitem_1)

lemma add_function_without_bounds:
  assumes "\<not> 2 \<le> length (x_list s)"
  shows "add_function f p n color s w = (Raises IndexError, s, w)"
  using assms by (auto simp: add_function_def getitem_0 getitem_1)

lemma add_function_ranges:
  assumes "add_function f p n color s w = (out, s', w')"
  shows "widened s s' \<and>
         (out = Returns () \<and> numeric_bounds (y_list s) \<and>
          asks_numbers (AddFunction f p n color) s w \<longrightarrow>
            enclosed (AddFunction f p n color) s w s')"
proof (cases "2 \<le> length (x_list s)")
  case False
  from assms add_function_without_bounds[OF False, of f p n color w]
  have "out = Raises IndexError" "s' = s" by simp_all
  then show ?thesis by (simp add: widened_refl)
next
  case True
  define xs where "xs = linspace (x_list s ! 0) (x_list s ! 1) 100"
  obtain r w1 where fv: "function_values f p xs w = (r, w1)" by (metis prod.collapse)
  have enc: "enclosed (AddFunction f p n color) s w t =
      (case function_values f p xs w of
         (Some (Returns fvals), w1) \<Rightarrow>
           (case (arr_min fvals, arr_max fvals) of
              (Returns mn, Returns mx) \<Rightarrow>
                covers (y_list t) (mn - y_range_margin s) (mx + y_range_margin s)
            | other \<Rightarrow> False)
       | nothing \<Rightarrow> True)" for t
    unfolding xs_def by simp
  have ask: "asks_numbers (AddFunction f p n color) s w =
      (case function_values f p xs w of
         (Some (Returns fvals), w1) \<Rightarrow>
           (case (arr_min fvals, arr_max fvals) of
              (Returns mn, Returns mx) \<Rightarrow>
                number (mn - y_range_margin s) \<and> number (mx + y_range_margin s)
            | other \<Rightarrow> True)
       | nothing \<Rightarrow> True)"
    unfolding xs_def by simp
  note af = add_function_with_bounds[OF True, of f p n color w, folded xs_def]
  show ?thesis
  proof (cases r)
    case None
    from assms af fv None have o: "s' = s" by auto
    have "enclosed (AddFunction f p n color) s w s'"
      using fv None by (simp add: enc del: enclosed.simps)
    with o show ?thesis by (simp add: widened_refl del: enclosed.simps asks_numbers.simps)
  next
    case (Some o1)
    show ?thesis
    proof (cases o1)
      case (Raises e)
      from assms af fv Some Raises have o: "s' = s" by auto
      have "enclosed (AddFunction f p n color) s w s'"
        using fv Some Raises by (simp add: enc del: enclosed.simps)
      with o show ?thesis by (simp add: widened_refl del: enclosed.simps asks_numbers.simps)
    next
      case (Returns fvals)
      with Some assms af fv have e: "add_function_entry f p n color fvals s = (out, s')"
        by (simp split: prod.splits)
      have "enclosed (AddFunction f p n color) s w s'"
        if "out = Returns ()" "numeric_bounds (y_list s)"
          "asks_numbers (AddFunction f p n color) s w"
      proof -
        from e that(1) have e': "add_function_entry f p n color fvals s = (Returns (), s')"
          by simp
        from add_function_entry_covers [OF e'] that(2,3) fv Some Returns
        show ?thesis
          by (auto simp add: enc ask simp del: enclosed.simps asks_numbers.simps)
      qed
      with add_function_entry_widened[OF e] show ?thesis by blast
    qed
  qed
qed

lemma perform_ranges:
  assumes "perform c s w = (out, s', w')"
  shows "widened s s' \<and>
         (out = Returns () \<and> numeric_bounds (x_list s) \<and> numeric_bounds (y_list s) \<and>
          asks_numbers c s w \<longrightarrow> enclosed c s w s')"
proof (cases c)
  case (AddDataset d color name)
  with assms have a: "add_dataset d color name s = (out, s')"
    by (auto split: prod.splits)
  have "enclosed c s w s'"
    if "out = Returns ()" "numeric_bounds (x_list s)" "numeric_bounds (y_list s)"
      "asks_numbers c s w"
    using add_dataset_covers [of d color name s s' w] a that AddDataset by simp
  with add_dataset_widened [OF a] show ?thesis by blast
next
  case (AddFunction f p n color)
  with assms have "add_function f p n color s w = (out, s', w')" by simp
  from add_function_ranges[OF this] AddFunction show ?thesis by blast
qed

lemma perform_all_widened:
  "perform_all cs s w = (outs, s', w') \<Longrightarrow> widened s s'"
proof (induction cs arbitrary: s w outs)
  case Nil
  then show ?case by (simp add: widened_refl)
next
  case (Cons c cs)
  obtain out s1 w1 where p: "perform c s w = (out, s1, w1)" by (metis prod_cases3)
  obtain outs1 where r: "perform_all cs s1 w1 = (outs1, s', w')"
    using Cons.prems p by (auto split: prod.splits)
  from perform_ranges[OF p] Cons.IH[OF r] show ?case
    by (blast intro: widened_trans)
qed

lemma enclosed_widened:
  "enclosed c s w t \<Longrightarrow> widened t t' \<Longrightarrow> enclosed c s w t'"
  using widened_lists [of t t']
  by (cases c) (auto intro: covers_grows split: prod.splits option.splits outcome.splits)

lemma numeric_bounds_widened:
  assumes "widened s t"
  shows "numeric_bounds (x_list s) \<Longrightarrow> numeric_bounds (x_list t)"
    and "numeric_bounds (y_list s) \<Longrightarrow> numeric_bounds (y_list t)"
  using widened_lists [OF assms] by (blast intro: numeric_bounds_grows)+

lemma all_enclosed_calls:
  assumes "perform_all cs s w = (outs, s', w')"
      and "numeric_bounds (x_list s)" and "numeric_bounds (y_list s)"
  shows "all_enclosed cs s w s'"
  using assms
proof (induction cs arbitrary: s w outs)
  case Nil
  then show ?case by simp
next
  case (Cons c cs)
  obtain out s1 w1 where p: "perform c s w = (out, s1, w1)" by (metis prod_cases3)
  obtain outs1 where r: "perform_all cs s1 w1 = (outs1, s', w')"
    using Cons.prems(1) p by (auto split: prod.splits)
  note pr = perform_ranges[OF p]
  from pr have ws: "widened s s1" by simp
  have e: "out = Returns () \<and> asks_numbers c s w \<longrightarrow> enclosed c s w s'"
    using pr Cons.prems(2,3) perform_all_widened[OF r]
    by (blast intro: enclosed_widened)
  have "all_enclosed cs s1 w1 s'"
    using Cons.IH [OF r numeric_bounds_widened(1) [OF ws Cons.prems(2)]
        numeric_bounds_widened(2) [OF ws Cons.prems(3)]] .
  with e p show ?case by simp
qed
lemma example_calls_run:
  "fst (perform_all example_calls example_plot example_world) = [Returns (), Returns ()]"
  "x_list (fst (snd (perform_all example_calls example_plot example_world)))
     = [Fin (- (5 / 2)), Fin (21 / 2)]"
  "y_list (fst (snd (perform_all example_calls example_plot example_world)))
     = [Fin (- (7 / 2)), Fin (15 / 2)]"
  by (simp_all add: example_calls_def example_plot_def example_dataset_def second_dataset_def
      tall_function_def add_dataset_def widen_ranges_def add_function_def add_function_entry_def
      function_values_def get_color_from_palette_def lower_to_def raise_to_def
      getitem_def setitem_def ndarray_def Set1_9_def str_int_def Let_def
      np_max_def np_min_def x_list_def y_list_def write_list_def
      split: prod.splits)

lemma example_plot_numeric:
  "numeric_bounds (x_list example_plot)" "numeric_bounds (y_list example_plot)"
  by (simp_all add: numeric_bounds_def example_plot_fields)

text \<open>
  C2, as the code has it. Take any list of \<^verbatim>\<open>add_dataset\<close> and \<^verbatim>\<open>add_function\<close>
  calls, made one after the other on a plot whose four range bounds are numbers,
  whether its two ranges are two lists or one. For every call of the list that
  returned and whose bounds are numbers, the x and y ranges of the plot after the
  last call enclose what the call added: for a dataset, the x and y extents it
  reported for the margins of the plot; for a function, the smallest and the largest
  of its values at the 100 sample points over the x range at the time of the call,
  less and plus the y margin. No call, returning or raising, moves a bound of a range
  inwards.
\<close>

theorem ranges_enclose_all_calls:
  assumes "perform_all cs s w = (outs, s', w')"
      and "numeric_bounds (x_list s)" and "numeric_bounds (y_list s)"
  shows "all_enclosed cs s w s' \<and>
         grows (x_list s) (x_list s') \<and> grows (y_list s) (y_list s')"
  using all_enclosed_calls [OF assms] widened_lists [OF perform_all_widened [OF assms(1)]]
  by simp

theorem ranges_enclose_all_calls_witness:
  "fst (perform_all example_calls example_plot example_world) = [Returns (), Returns ()] \<and>
   numeric_bounds (x_list example_plot) \<and> numeric_bounds (y_list example_plot) \<and>
   x_list (fst (snd (perform_all example_calls example_plot example_world)))
     = [Fin (- (5 / 2)), Fin (21 / 2)] \<and>
   y_list (fst (snd (perform_all example_calls example_plot example_world)))
     = [Fin (- (7 / 2)), Fin (15 / 2)] \<and>
   asks_numbers (AddDataset second_dataset None None) example_plot example_world \<and>
   covers (x_list (fst (snd (perform_all example_calls example_plot example_world))))
     (Fin (- (5 / 2))) (Fin (5 / 2)) \<and>
   all_enclosed example_calls example_plot example_world
     (fst (snd (perform_all example_calls example_plot example_world)))"
proof -
  have "perform_all example_calls example_plot example_world =
          (fst (perform_all example_calls example_plot example_world),
           fst (snd (perform_all example_calls example_plot example_world)),
           snd (snd (perform_all example_calls example_plot example_world)))"
    by simp
  from ranges_enclose_all_calls [OF this example_plot_numeric] show ?thesis
    by (simp add: example_calls_run numeric_bounds_def covers_def second_dataset_def
        example_dataset_def example_plot_fields)
qed

lemma add_example_dataset_again:
  assumes "x_list s = [Fin (- (1 / 2)), Fin (21 / 2)]"
      and "y_list s = [Fin (- (1 / 2)), Fin (11 / 2)]"
      and "x_range_margin s = Fin (1 / 2)" and "y_range_margin s = Fin (1 / 2)"
      and "color_palette s = Set1_9" and "color_count s = k" and "0 \<le> k" and "k < 9"
  shows "add_dataset example_dataset None None s =
           (Returns (),
            s\<lparr>datasets := datasets s @ [example_dataset], color_count := k + 1,
              datasets_colors := datasets_colors s @ [Set1_9 ! nat k]\<rparr>)"
proof -
  have l: "(lists s)(x_range s := [Fin (- (1 / 2)), Fin (21 / 2)]) = lists s"
    "(lists s)(y_range s := [Fin (- (1 / 2)), Fin (11 / 2)]) = lists s"
    using assms(1,2) by (auto simp: x_list_def y_list_def fun_eq_iff)
  have g: "getitem Set1_9 k = Returns (Set1_9 ! nat k)"
    using assms(7,8) by (simp add: getitem_def Set1_9_def)
  show ?thesis
    using assms(1-6) g
    by (simp add: add_dataset_def widen_ranges_def get_color_from_palette_def Let_def
        example_dataset_def lower_to_def raise_to_def getitem_0 getitem_1 write_list_def
        x_list_def y_list_def l)
qed

lemma add_dataset_palette_exhausted:
  assumes "color_palette s = Set1_9" and "color_count s = 9"
  shows "add_dataset d None name s =
           (Raises IndexError, s\<lparr>datasets := datasets s @ [d], color_count := 10\<rparr>)"
  using assms
  by (simp add: add_dataset_def get_color_from_palette_def Let_def getitem_def Set1_9_def)

lemma nine_calls_list:
  "nine_calls =
     [AddDataset example_dataset None None, AddDataset example_dataset None None,
      AddDataset example_dataset None None, AddDataset example_dataset None None,
      AddDataset example_dataset None None, AddDataset example_dataset None None,
      AddDataset example_dataset None None, AddDataset example_dataset None None,
      AddDataset wide_dataset None None]"
  by (simp add: nine_calls_def eval_nat_numeral)

lemma after_nine_calls_facts:
  "fst after_nine_calls =
     [Returns (), Returns (), Returns (), Returns (), Returns (), Returns (), Returns (),
      Returns (), Raises IndexError]"
  "last (datasets (fst (snd after_nine_calls))) = wide_dataset"
  "x_list (fst (snd after_nine_calls)) = [Fin (- (1 / 2)), Fin (21 / 2)]"
  "x_range_margin (fst (snd after_nine_calls)) = Fin (1 / 2)"
  by (simp_all add: after_nine_calls_def nine_calls_list add_example_dataset_again
      add_dataset_palette_exhausted example_plot_fields)

text \<open>
  C2 as stated fails. \<^verbatim>\<open>add_dataset\<close> appends the dataset (line 168) before it takes
  a color (line 170). On the example plot, whose constructor took the first of the
  nine colors, the ninth call of \<^verbatim>\<open>add_dataset\<close> with no color raises
  \<^verbatim>\<open>IndexError\<close> there: the dataset, whose \<open>x\<close> extent with the margin is from
  \<open>-100.5\<close> to \<open>100.5\<close>, is in the list of datasets, and the x range is still
  from \<open>-0.5\<close> to \<open>10.5\<close>.
\<close>

theorem appended_dataset_not_enclosed:
  "fst after_nine_calls ! 8 = Raises IndexError \<and>
   last (datasets (fst (snd after_nine_calls))) = wide_dataset \<and>
   get_x_range wide_dataset (x_range_margin (fst (snd after_nine_calls)))
     = [Fin (- (201 / 2)), Fin (201 / 2)] \<and>
   x_list (fst (snd after_nine_calls)) = [Fin (- (1 / 2)), Fin (21 / 2)] \<and>
   \<not> covers (x_list (fst (snd after_nine_calls))) (Fin (- (201 / 2))) (Fin (201 / 2))"
  by (simp add: after_nine_calls_facts wide_dataset_def example_dataset_def covers_def)

text \<open>
  The bounds have to be numbers. A bound of the plot that is NaN is never moved, as
  no comparison with it holds: on the example plot with the x range \<^verbatim>\<open>[nan, 10]\<close>,
  \<^verbatim>\<open>add_dataset\<close> returns for the second dataset and the lower bound of the x range
  is still NaN.
\<close>

lemma nan_bound_is_never_moved:
  "x_list nan_plot = [NaN, Fin 10] \<and>
   fst (add_dataset second_dataset None None nan_plot) = Returns () \<and>
   x_list (snd (add_dataset second_dataset None None nan_plot)) = [NaN, Fin 10] \<and>
   \<not> covers (x_list (snd (add_dataset second_dataset None None nan_plot)))
        (Fin (- (5 / 2))) (Fin (5 / 2))"
  by (simp add: nan_plot_def new_list_def set_plot_range_def example_plot_def
      second_dataset_def example_dataset_def add_dataset_def widen_ranges_def
      get_color_from_palette_def lower_to_def raise_to_def getitem_def setitem_def Set1_9_def
      Let_def x_list_def y_list_def write_list_def covers_def)


subsection \<open>Rendering reads the plot\<close>

lemmas branch_congs = outcome.case_cong prod.case_cong option.case_cong layout.case_cong if_cong

lemma initialize_main_ignores_figures:
  "initialize_bokeh_figure False (s\<lparr>bkfigure := b\<rparr>) = initialize_bokeh_figure False s"
  "initialize_bokeh_figure False (s\<lparr>bkres := r\<rparr>) = initialize_bokeh_figure False s"
  "initialize_bokeh_figure True (s\<lparr>bkres := r\<rparr>) = initialize_bokeh_figure True s"
  "initialize_bokeh_figure True (s\<lparr>bkres := r, bkfigure := b\<rparr>)
     = initialize_bokeh_figure True (s\<lparr>bkfigure := b\<rparr>)"
  by (simp_all add: initialize_bokeh_figure_def cong: branch_congs)

lemma plot_one_dataset_ignores_figures:
  "plot_one_dataset (s\<lparr>bkfigure := b\<rparr>) = plot_one_dataset s"
  "plot_one_dataset (s\<lparr>bkres := r\<rparr>) = plot_one_dataset s"
  by (intro ext, simp add: plot_one_dataset_def Let_def cong: branch_congs)+

lemma plot_datasets_ignores_bkfigure:
  "plot_datasets (s\<lparr>bkfigure := b\<rparr>) ds c f r0 = plot_datasets s ds c f r0"
  by (induction ds arbitrary: c f r0)
     (simp_all add: plot_one_dataset_ignores_figures cong: branch_congs)

lemma plot_datasets_ignores_bkres:
  "plot_datasets (s\<lparr>bkres := r\<rparr>) ds c f r0 = plot_datasets s ds c f r0"
  by (induction ds arbitrary: c f r0)
     (simp_all add: plot_one_dataset_ignores_figures cong: branch_congs)

lemma plot_user_functions_ignores_bkfigure:
  "plot_user_functions (s\<lparr>bkfigure := b\<rparr>) fs c xs f = plot_user_functions s fs c xs f"
  by (induction fs arbitrary: c f) (auto cong: branch_congs)

lemma plot_user_functions_ignores_bkres:
  "plot_user_functions (s\<lparr>bkres := r\<rparr>) fs c xs f = plot_user_functions s fs c xs f"
  by (induction fs arbitrary: c f) (auto cong: branch_congs)

lemma plot_one_dataset_no_residuals:
  assumes "\<not> show_residuals s"
  shows "plot_one_dataset s c d f r =
           (fst (plot_one_dataset s c d f None), fst (snd (plot_one_dataset s c d f None)), r)"
  using assms
  by (simp add: plot_one_dataset_def Let_def split: outcome.splits prod.splits)

lemma plot_datasets_no_residuals:
  assumes "\<not> show_residuals s"
  shows "plot_datasets s ds c f r =
           (fst (plot_datasets s ds c f None), fst (snd (plot_datasets s ds c f None)), r)"
proof (induction ds arbitrary: c f r)
  case Nil
  then show ?case by simp
next
  case (Cons d ds)
  obtain out f1 where one: "plot_one_dataset s c d f None = (out, f1, None)"
    using plot_one_dataset_no_residuals[OF assms, of c d f None] by metis
  then have one_r: "plot_one_dataset s c d f r = (out, f1, r)"
    using plot_one_dataset_no_residuals[OF assms, of c d f r] by simp
  show ?case
  proof (cases out)
    case (Raises e)
    with one one_r show ?thesis by simp
  next
    case (Returns u)
    with one one_r Cons.IH[of "c + 1" f1 r] show ?thesis by simp
  qed
qed


lemmas ignores_figures =
  initialize_main_ignores_figures plot_datasets_ignores_bkfigure plot_datasets_ignores_bkres
  plot_user_functions_ignores_bkfigure plot_user_functions_ignores_bkres

lemma populate_early_raise:
  "initialize_bokeh_figure False s = Raises e \<Longrightarrow> populate_bokeh_figure s = (Raises e, s)"
  by (simp add: populate_bokeh_figure_def)

lemma populate_ignores_bkfigure:
  assumes "initialize_bokeh_figure False s = Returns f0"
  shows "populate_bokeh_figure (s\<lparr>bkfigure := b\<rparr>) = populate_bokeh_figure s"
  using assms
  by (simp add: populate_bokeh_figure_def Let_def ignores_figures cong: branch_congs)

lemma populate_frame:
  assumes "populate_bokeh_figure s = (out, s')"
  shows "s' = s\<lparr>bkfigure := bkfigure s', bkres := bkres s'\<rparr>"
  using assms unfolding populate_bokeh_figure_def Let_def
  by (auto split: outcome.splits prod.splits option.splits if_splits)


lemma populate_residuals_overwritten:
  assumes "show_residuals s"
      and "initialize_bokeh_figure False s = Returns f0"
      and "initialize_bokeh_figure True (s\<lparr>bkfigure := Some (Figure f0)\<rparr>) = Returns r0"
  shows "populate_bokeh_figure (s\<lparr>bkres := r\<rparr>) = populate_bokeh_figure s"
  using assms
  by (simp add: populate_bokeh_figure_def Let_def ignores_figures cong: branch_congs)

lemma populate_residuals_raise:
  assumes "show_residuals s"
      and "initialize_bokeh_figure False s = Returns f0"
      and "initialize_bokeh_figure True (s\<lparr>bkfigure := Some (Figure f0)\<rparr>) = Raises e"
  shows "populate_bokeh_figure s = (Raises e, s\<lparr>bkfigure := Some (Figure f0)\<rparr>)"
    and "populate_bokeh_figure (s\<lparr>bkres := r\<rparr>)
           = (Raises e, s\<lparr>bkfigure := Some (Figure f0), bkres := r\<rparr>)"
  using assms
  by (simp_all add: populate_bokeh_figure_def Let_def ignores_figures cong: branch_congs)

lemma populate_no_residuals:
  assumes "\<not> show_residuals s"
  shows "bkres (snd (populate_bokeh_figure s)) = bkres s"
    and "fst (populate_bokeh_figure (s\<lparr>bkres := r\<rparr>)) = fst (populate_bokeh_figure s)"
proof -
  show "bkres (snd (populate_bokeh_figure s)) = bkres s"
    using assms plot_datasets_no_residuals[of "s\<lparr>bkfigure := b\<rparr>" "datasets s" 0 f "bkres s" for b f]
    unfolding populate_bokeh_figure_def Let_def
    by (auto split: outcome.splits prod.splits option.splits)
  note pd = plot_datasets_no_residuals[OF assms]
  show "fst (populate_bokeh_figure (s\<lparr>bkres := r\<rparr>)) = fst (populate_bokeh_figure s)"
    using assms
    unfolding populate_bokeh_figure_def Let_def
    apply (simp add: ignores_figures cong: branch_congs)
    apply (subst pd[of _ _ _ r])
    apply (subst pd[of _ _ _ "bkres s"])
    apply (simp add: ignores_figures split: outcome.splits prod.splits)
    done
qed


lemma populate_outcome_ignores_bkres:
  "fst (populate_bokeh_figure (s\<lparr>bkres := r\<rparr>)) = fst (populate_bokeh_figure s)"
proof (cases "initialize_bokeh_figure False s")
  case (Raises e)
  then show ?thesis
    using populate_early_raise[of s e] populate_early_raise[of "s\<lparr>bkres := r\<rparr>" e]
    by (simp add: initialize_main_ignores_figures)
next
  case (Returns f0)
  show ?thesis
  proof (cases "show_residuals s")
    case False
    then show ?thesis by (rule populate_no_residuals(2))
  next
    case True
    show ?thesis
    proof (cases "initialize_bokeh_figure True (s\<lparr>bkfigure := Some (Figure f0)\<rparr>)")
      case (Returns r0)
      from populate_residuals_overwritten[OF True \<open>initialize_bokeh_figure False s = Returns f0\<close> this]
      show ?thesis by simp
    next
      case (Raises e)
      from populate_residuals_raise[OF True \<open>initialize_bokeh_figure False s = Returns f0\<close> this]
      show ?thesis by simp
    qed
  qed
qed

lemma populate_again_with_bkres:
  "populate_bokeh_figure (s\<lparr>bkres := bkres (snd (populate_bokeh_figure s))\<rparr>)
     = populate_bokeh_figure s"
proof (cases "initialize_bokeh_figure False s")
  case (Raises e)
  then show ?thesis using populate_early_raise[of s e] by simp
next
  case (Returns f0)
  show ?thesis
  proof (cases "show_residuals s")
    case False
    then show ?thesis by (simp add: populate_no_residuals(1))
  next
    case True
    show ?thesis
    proof (cases "initialize_bokeh_figure True (s\<lparr>bkfigure := Some (Figure f0)\<rparr>)")
      case (Returns r0)
      from populate_residuals_overwritten[OF True \<open>initialize_bokeh_figure False s = Returns f0\<close> this]
      show ?thesis by simp
    next
      case (Raises e)
      from populate_residuals_raise(1)[OF True \<open>initialize_bokeh_figure False s = Returns f0\<close> this]
      show ?thesis by simp
    qed
  qed
qed

lemma rendered_glyphs:
  "(case fst rendered of
      Returns (Gridplot rows) \<Rightarrow> map (map (\<lambda>f. length (fig_glyphs f))) rows
    | other \<Rightarrow> []) = [[5], [1]]"
  by (simp add: rendered_def populated_plot_def populate_bokeh_figure_def example_plot_def
      fitted_dataset_def example_dataset_def example_measurements_def
      initialize_bokeh_figure_def plot_one_dataset_def getitem_def dict_get_def add_glyph_def
      upt_rec Let_def x_list_def y_list_def)


text \<open>
  C8. \<^verbatim>\<open>populate_bokeh_figure\<close> assigns only \<^verbatim>\<open>bkfigure\<close> and \<^verbatim>\<open>bkres\<close>: every other
  attribute of the plot (datasets, colors, functions, ranges, labels, counters) is
  the same after the call. Called again on the plot it left, it gives the same
  outcome, an equal figure, and leaves the same plot. The figures are built anew
  at each call: whatever figures \<^verbatim>\<open>bkfigure\<close> and \<^verbatim>\<open>bkres\<close> held before the call, the
  outcome is the same. Figures are compared by what was asked of the rendering
  library; the identity of the objects is not modelled.
\<close>

theorem populate_is_idempotent_read:
  assumes "populate_bokeh_figure s = (out, s')"
  shows "s' = s\<lparr>bkfigure := bkfigure s', bkres := bkres s'\<rparr> \<and>
         populate_bokeh_figure s' = (out, s') \<and>
         (\<forall>b r. fst (populate_bokeh_figure (s\<lparr>bkfigure := b, bkres := r\<rparr>)) = out)"
proof (cases "initialize_bokeh_figure False s")
  case (Raises e)
  from populate_early_raise[OF this] assms have o: "out = Raises e" "s' = s" by simp_all
  have "fst (populate_bokeh_figure (s\<lparr>bkfigure := b, bkres := r\<rparr>)) = out" for b r
    using populate_early_raise[of "s\<lparr>bkfigure := b, bkres := r\<rparr>" e] Raises o
    by (simp add: initialize_main_ignores_figures)
  with o assms show ?thesis by simp
next
  case (Returns f0)
  note frame = populate_frame[OF assms]
  have swap: "s\<lparr>bkfigure := b, bkres := r\<rparr> = (s\<lparr>bkres := r\<rparr>)\<lparr>bkfigure := b\<rparr>" for b r
    by simp
  have init_r: "initialize_bokeh_figure False (s\<lparr>bkres := r\<rparr>) = Returns f0" for r
    using Returns by (simp add: initialize_main_ignores_figures)
  have any: "populate_bokeh_figure (s\<lparr>bkfigure := b, bkres := r\<rparr>)
               = populate_bokeh_figure (s\<lparr>bkres := r\<rparr>)" for b r
    unfolding swap by (rule populate_ignores_bkfigure[OF init_r])
  have "populate_bokeh_figure s' = populate_bokeh_figure (s\<lparr>bkres := bkres s'\<rparr>)"
    using any[where b = "bkfigure s'" and r = "bkres s'"] frame by simp
  also have "\<dots> = populate_bokeh_figure s"
    using populate_again_with_bkres[of s] assms by simp
  finally have again: "populate_bokeh_figure s' = (out, s')" using assms by simp
  have "fst (populate_bokeh_figure (s\<lparr>bkfigure := b, bkres := r\<rparr>)) = out" for b r
    using any[where b = b and r = r] populate_outcome_ignores_bkres[where s = s and r = r] assms by simp
  with frame again show ?thesis by blast
qed



theorem populate_is_idempotent_read_witness:
  "(case fst rendered of
      Returns (Gridplot rows) \<Rightarrow> map (map (\<lambda>f. length (fig_glyphs f))) rows
    | other \<Rightarrow> []) = [[5], [1]] \<and>
   populate_bokeh_figure (snd rendered) = rendered \<and>
   snd rendered = populated_plot\<lparr>bkfigure := bkfigure (snd rendered),
                                  bkres := bkres (snd rendered)\<rparr> \<and>
   fst (populate_bokeh_figure (populated_plot\<lparr>bkfigure := None, bkres := None\<rparr>)) = fst rendered"
proof -
  have "populate_bokeh_figure populated_plot = (fst rendered, snd rendered)"
    by (simp add: rendered_def)
  from populate_is_idempotent_read [OF this] rendered_glyphs show ?thesis
    by (simp add: prod_eq_iff)
qed


end
